theory Spec2Isabelle
  imports Complex_Main
begin

section \<open>Go strings\<close>

text \<open>
  A Go string is a sequence of bytes, modelled as a \<open>char list\<close>. The functions of
  package \<open>strings\<close> that work on bytes (\<open>Index\<close>, \<open>Contains\<close>, \<open>HasPrefix\<close>, \<open>Split\<close>,
  \<open>SplitN\<close>, \<open>Join\<close>, and \<open>Trim\<close> with a cutset of ASCII bytes) are written out as Go
  computes them on every string. The case mapping and the white space written out here
  are the ASCII ones: they are Go's \<open>ToLower\<close>, \<open>ToUpper\<close>, \<open>TrimSpace\<close> and \<open>Fields\<close> on
  strings of ASCII bytes, and are used where a concrete query is evaluated.
\<close>

definition lower_char :: "char \<Rightarrow> char" where
  "lower_char c =
     (case map_of (zip ''ABCDEFGHIJKLMNOPQRSTUVWXYZ'' ''abcdefghijklmnopqrstuvwxyz'') c of
        Some d \<Rightarrow> d
      | None \<Rightarrow> c)"

definition upper_char :: "char \<Rightarrow> char" where
  "upper_char c =
     (case map_of (zip ''abcdefghijklmnopqrstuvwxyz'' ''ABCDEFGHIJKLMNOPQRSTUVWXYZ'') c of
        Some d \<Rightarrow> d
      | None \<Rightarrow> c)"

definition strings_ToLower :: "string \<Rightarrow> string" where
  "strings_ToLower s = map lower_char s"

definition strings_ToUpper :: "string \<Rightarrow> string" where
  "strings_ToUpper s = map upper_char s"

text \<open>White space: space, tab, line feed, vertical tab, form feed, carriage return.\<close>

definition isSpace :: "char \<Rightarrow> bool" where
  "isSpace c = (c \<in> set [CHR '' '', CHR 0x09, CHR 0x0A, CHR 0x0B, CHR 0x0C, CHR 0x0D])"

definition strings_TrimSpace :: "string \<Rightarrow> string" where
  "strings_TrimSpace s = rev (dropWhile isSpace (rev (dropWhile isSpace s)))"

text \<open>\<open>strings.Trim(s, cutset)\<close>: leading and trailing bytes of the cutset removed.\<close>

definition strings_Trim :: "string \<Rightarrow> string \<Rightarrow> string" where
  "strings_Trim s cutset =
     rev (dropWhile (\<lambda>c. c \<in> set cutset) (rev (dropWhile (\<lambda>c. c \<in> set cutset) s)))"

definition strings_HasPrefix :: "string \<Rightarrow> string \<Rightarrow> bool" where
  "strings_HasPrefix s p = (take (length p) s = p)"

text \<open>\<open>strings.Index\<close>: the index of the first occurrence, or \<open>-1\<close>.\<close>

fun strings_Index :: "string \<Rightarrow> string \<Rightarrow> int" where
  "strings_Index [] sub = (if sub = [] then 0 else -1)"
| "strings_Index (c # s) sub =
     (if strings_HasPrefix (c # s) sub then 0
      else (let i = strings_Index s sub in if i = -1 then -1 else i + 1))"

definition strings_Contains :: "string \<Rightarrow> string \<Rightarrow> bool" where
  "strings_Contains s sub = (0 \<le> strings_Index s sub)"

text \<open>
  \<open>strings.Split(s, sep)\<close>: the pieces between the occurrences of \<open>sep\<close>, found from
  the left; with an empty separator, the string is cut into its bytes.
\<close>

function strings_Split :: "string \<Rightarrow> string \<Rightarrow> string list" where
  "strings_Split s sep =
     (if sep = [] then map (\<lambda>c. [c]) s
      else if strings_Index s sep = -1 then [s]
      else take (nat (strings_Index s sep)) s
             # strings_Split (drop (nat (strings_Index s sep) + length sep) s) sep)"
  by pat_completeness auto
termination
proof (relation "measure (\<lambda>(s, sep). length s)")
  show "wf (measure (\<lambda>(s, sep). length s))" by simp
next
  fix s sep :: string
  assume sep: "sep \<noteq> []" and found: "strings_Index s sep \<noteq> - 1"
  from sep found have "s \<noteq> []" by (cases s) auto
  moreover from sep have "0 < length sep" by simp
  ultimately show "((drop (nat (strings_Index s sep) + length sep) s, sep), (s, sep))
      \<in> measure (\<lambda>(s, sep). length s)"
    by simp
qed

declare strings_Split.simps [simp del]

text \<open>\<open>strings.SplitN(s, sep, 2)\<close>, the only count the plugin asks for.\<close>

definition strings_SplitN2 :: "string \<Rightarrow> string \<Rightarrow> string list" where
  "strings_SplitN2 s sep =
     (if strings_Index s sep = -1 then [s]
      else [take (nat (strings_Index s sep)) s,
            drop (nat (strings_Index s sep) + length sep) s])"

text \<open>\<open>strings.Fields\<close>: the maximal runs of bytes that are not white space.\<close>

fun fields_from :: "string \<Rightarrow> string \<Rightarrow> string list" where
  "fields_from cur [] = (if cur = [] then [] else [rev cur])"
| "fields_from cur (c # s) =
     (if isSpace c then (if cur = [] then fields_from [] s else rev cur # fields_from [] s)
      else fields_from (c # cur) s)"

definition strings_Fields :: "string \<Rightarrow> string list" where
  "strings_Fields s = fields_from [] s"

fun strings_Join :: "string list \<Rightarrow> string \<Rightarrow> string" where
  "strings_Join [] sep = []"
| "strings_Join [x] sep = x"
| "strings_Join (x # y # xs) sep = x @ sep @ strings_Join (y # xs) sep"

section \<open>Faults\<close>

text \<open>
  \<open>ParseError\<close> is the error \<open>parseSQLQueryWithVariables\<close> returns; \<open>Panic\<close> is a
  run-time fault of Go (a slice expression out of range, a failed type assertion), which
  the \<open>recover\<close> of \<open>query\<close> turns into an internal error.
\<close>

datatype error = ParseError string | Panic string | BadRequest string | InternalError string

text \<open>The slice expression \<open>s[lo:hi]\<close> panics unless \<open>0 \<le> lo \<le> hi \<le> len(s)\<close>.\<close>

definition slice :: "string \<Rightarrow> int \<Rightarrow> int \<Rightarrow> error + string" where
  "slice s lo hi =
     (if 0 \<le> lo \<and> lo \<le> hi \<and> hi \<le> int (length s)
      then Inr (take (nat (hi - lo)) (drop (nat lo) s))
      else Inl (Panic ''slice bounds out of range''))"

text \<open>The slice expression \<open>s[lo:]\<close>.\<close>

definition slice_from :: "string \<Rightarrow> int \<Rightarrow> error + string" where
  "slice_from s lo = slice s lo (int (length s))"

text \<open>Sequencing of steps that may fault.\<close>

definition bind_err :: "error + 'a \<Rightarrow> ('a \<Rightarrow> error + 'b) \<Rightarrow> error + 'b" where
  "bind_err r f = (case r of Inl e \<Rightarrow> Inl e | Inr x \<Rightarrow> f x)"

section \<open>Dynamically typed values and documents\<close>

text \<open>
  The values of a Firestore document (\<open>interface{}\<close>): nil, booleans, integers (of the
  Go types \<open>int\<close>, \<open>int32\<close>, \<open>int64\<close>), floating point numbers, strings, time stamps,
  nested mappings and arrays. The type \<open>'f\<close> stands for \<open>float64\<close> (a \<open>float32\<close> is carried
  as the \<open>float64\<close> it converts to); its arithmetic is not defined here but passed to the
  functions that use it, in a \<open>goenv\<close>. A mapping is an association list; the first binding
  of a key is its value.
\<close>

datatype gotime = GoTime (wall_sec: int) (wall_nsec: int)

definition IsZero :: "gotime \<Rightarrow> bool" where
  "IsZero t = (wall_sec t = 0 \<and> wall_nsec t = 0)"

datatype 'f val =
    VNil
  | VBool bool
  | VInt int
  | VInt32 int
  | VInt64 int
  | VFloat64 'f
  | VFloat32 'f
  | VString string
  | VTime gotime
  | VMap "(string \<times> 'f val) list"
  | VList "'f val list"

type_synonym 'f document = "(string \<times> 'f val) list"

text \<open>
  A \<open>*firestore.DocumentSnapshot\<close>: \<open>Some d\<close> is a snapshot with the data \<open>d\<close>, \<open>None\<close>
  one whose \<open>Data()\<close> is nil. A nil pointer, which the store never returns, is skipped by
  the filter as \<open>None\<close> is; elsewhere it is outside the model.
\<close>

type_synonym 'f snapshot = "'f document option"

text \<open>
  What the Go run time and library supply: the \<open>%v\<close> rendering of floats, times, maps and
  arrays, \<open>strconv.ParseFloat\<close>, the conversion of an integer to \<open>float64\<close>, the
  arithmetic and comparisons of \<open>float64\<close>, and \<open>json.Marshal\<close> (\<open>Inl\<close> its error text).
\<close>

record 'f goenv =
  fmtOther :: "'f val \<Rightarrow> string"
  ParseFloat :: "string \<Rightarrow> 'f option"
  float64_of_int :: "int \<Rightarrow> 'f"
  fzero :: "'f"
  fadd :: "'f \<Rightarrow> 'f \<Rightarrow> 'f"
  fdiv :: "'f \<Rightarrow> 'f \<Rightarrow> 'f"
  fless :: "'f \<Rightarrow> 'f \<Rightarrow> bool"
  feq :: "'f \<Rightarrow> 'f \<Rightarrow> bool"
  jsonMarshal :: "'f val \<Rightarrow> string + string"

text \<open>Decimal digits of a natural number, and \<open>%v\<close> of an integer.\<close>

definition digit_char :: "nat \<Rightarrow> char" where
  "digit_char d = ''0123456789'' ! d"

fun nat_digits :: "nat \<Rightarrow> string" where
  "nat_digits n = (if n < 10 then [digit_char n] else nat_digits (n div 10) @ [digit_char (n mod 10)])"

declare nat_digits.simps [simp del]

definition int_string :: "int \<Rightarrow> string" where
  "int_string i = (if i < 0 then CHR ''-'' # nat_digits (nat (- i)) else nat_digits (nat i))"

text \<open>\<open>fmt.Sprintf("%v", v)\<close>.\<close>

definition Sprintf_v :: "'f goenv \<Rightarrow> 'f val \<Rightarrow> string" where
  "Sprintf_v env v =
     (case v of
        VNil \<Rightarrow> ''<nil>''
      | VBool b \<Rightarrow> (if b then ''true'' else ''false'')
      | VInt i \<Rightarrow> int_string i
      | VInt32 i \<Rightarrow> int_string i
      | VInt64 i \<Rightarrow> int_string i
      | VString s \<Rightarrow> s
      | _ \<Rightarrow> fmtOther env v)"

text \<open>Indexing a Go map: a missing key gives nil.\<close>

definition lookup :: "'f document \<Rightarrow> string \<Rightarrow> 'f val" where
  "lookup doc k = (case map_of doc k of None \<Rightarrow> VNil | Some v \<Rightarrow> v)"

section \<open>Nested field access\<close>

text \<open>
  The loop of \<open>getNestedFieldValue\<close> over the parts of a dotted path: the last part is
  looked up in the current mapping; an earlier part must lead to a mapping.
\<close>

fun descend :: "'f document \<Rightarrow> string list \<Rightarrow> 'f val" where
  "descend current [] = VNil"
| "descend current [part] = lookup current part"
| "descend current (part # rest) =
     (case lookup current part of
        VMap next_map \<Rightarrow> descend next_map rest
      | _ \<Rightarrow> VNil)"

definition getNestedFieldValue :: "'f document \<Rightarrow> string \<Rightarrow> 'f val" where
  "getNestedFieldValue doc fieldPath =
     (if \<not> strings_Contains fieldPath ''.'' then lookup doc fieldPath
      else descend doc (strings_Split fieldPath ''.''))"

section \<open>The query plan\<close>

record AggregateInfo =
  Function :: string
  Field :: string
  Alias :: string

record 'f FilterInfo =
  FilterField :: string
  Operator :: string
  Value :: "'f val"

record 'f QueryInfo =
  Collection :: string
  Fields :: "string list"
  TimeField :: string
  AdditionalFilters :: "'f FilterInfo list"
  OrderField :: string
  OrderDirection :: string
  Limit :: int
  GroupByFields :: "string list"
  AggregateFields :: "AggregateInfo list"

section \<open>Manual filtering\<close>

text \<open>
  The inner loop of \<open>applyManualFiltering\<close> over the filters, for one document: a field
  that resolves to nil excludes the document; so does an \<open>==\<close> filter whose rendering
  differs from the field's.
\<close>

fun passesFilters :: "'f goenv \<Rightarrow> 'f document \<Rightarrow> 'f FilterInfo list \<Rightarrow> bool" where
  "passesFilters env docData [] = True"
| "passesFilters env docData (f # fs) =
     (let fieldValue = getNestedFieldValue docData (FilterField f) in
      if fieldValue = VNil then False
      else if Operator f = ''=='' \<and> Sprintf_v env fieldValue \<noteq> Sprintf_v env (Value f)
      then False
      else passesFilters env docData fs)"

text \<open>The outer loop over the documents: nil documents are skipped.\<close>

fun filterLoop :: "'f goenv \<Rightarrow> 'f snapshot list \<Rightarrow> 'f FilterInfo list \<Rightarrow> 'f snapshot list" where
  "filterLoop env [] filters = []"
| "filterLoop env (None # docs) filters = filterLoop env docs filters"
| "filterLoop env (Some docData # docs) filters =
     (if passesFilters env docData filters then Some docData # filterLoop env docs filters
      else filterLoop env docs filters)"

definition applyManualFiltering ::
    "'f goenv \<Rightarrow> 'f snapshot list \<Rightarrow> 'f FilterInfo list \<Rightarrow> 'f snapshot list" where
  "applyManualFiltering env docs filters =
     (if filters = [] then docs
      else if docs = [] then docs
      else filterLoop env docs filters)"

section \<open>The SQL-subset parser\<close>

text \<open>\<open>strconv.Atoi\<close>: an optional sign and decimal digits, within the 64-bit \<open>int\<close>.\<close>

definition digit_val :: "char \<Rightarrow> nat option" where
  "digit_val c = map_of (zip ''0123456789'' [0, 1, 2, 3, 4, 5, 6, 7, 8, 9]) c"

fun digits_val :: "nat \<Rightarrow> string \<Rightarrow> nat option" where
  "digits_val acc [] = Some acc"
| "digits_val acc (c # s) =
     (case digit_val c of None \<Rightarrow> None | Some d \<Rightarrow> digits_val (10 * acc + d) s)"

definition strconv_Atoi :: "string \<Rightarrow> int option" where
  "strconv_Atoi s =
     (let neg = (take 1 s = ''-'');
          ds = (if take 1 s = ''-'' \<or> take 1 s = ''+'' then drop 1 s else s)
      in if ds = [] then None
         else (case digits_val 0 ds of
                 None \<Rightarrow> None
               | Some n \<Rightarrow>
                   (let v = (if neg then - int n else int n)
                    in if - (2 ^ 63) \<le> v \<and> v < 2 ^ 63 then Some v else None)))"

text \<open>
  Four functions of package \<open>strings\<close> that the parser calls follow the Unicode tables:
  \<open>ToLower\<close> and \<open>ToUpper\<close> (which can change the length of a string), \<open>TrimSpace\<close> and
  \<open>Fields\<close>. The parser takes them as parameters, so that what is proved of it for every
  library is proved of it for Go's.
\<close>

record stringsLib =
  libToLower :: "string \<Rightarrow> string"
  libToUpper :: "string \<Rightarrow> string"
  libTrimSpace :: "string \<Rightarrow> string"
  libFields :: "string \<Rightarrow> string list"

text \<open>
  The library on ASCII: the four functions of the first section, which are Go's on every
  string of ASCII bytes.
\<close>

definition asciiLib :: stringsLib where
  "asciiLib =
     \<lparr>libToLower = strings_ToLower, libToUpper = strings_ToUpper,
      libTrimSpace = strings_TrimSpace, libFields = strings_Fields\<rparr>"

definition cleanBackticks :: "stringsLib \<Rightarrow> string \<Rightarrow> string" where
  "cleanBackticks lib field = strings_Trim (libTrimSpace lib field) [CHR 0x60]"

definition isAggregate :: "string \<Rightarrow> bool" where
  "isAggregate upperField =
     (strings_Contains upperField ''COUNT('' \<or> strings_Contains upperField ''SUM('' \<or>
      strings_Contains upperField ''AVG('' \<or> strings_Contains upperField ''MIN('' \<or>
      strings_Contains upperField ''MAX('')"

definition funcNameOf :: "string \<Rightarrow> string" where
  "funcNameOf upperField =
     (if strings_HasPrefix upperField ''COUNT('' then ''COUNT''
      else if strings_HasPrefix upperField ''SUM('' then ''SUM''
      else if strings_HasPrefix upperField ''AVG('' then ''AVG''
      else if strings_HasPrefix upperField ''MIN('' then ''MIN''
      else if strings_HasPrefix upperField ''MAX('' then ''MAX''
      else [])"

text \<open>
  \<open>field[start+1:end]\<close>, where the guard of the source keeps the bounds in range: both
  indices are found in \<open>field\<close> itself and \<open>0 \<le> start < end < len\<close>.
\<close>

definition substr :: "string \<Rightarrow> int \<Rightarrow> int \<Rightarrow> string" where
  "substr s lo hi = take (nat (hi - lo)) (drop (nat lo) s)"

definition fieldNameOf :: "stringsLib \<Rightarrow> string \<Rightarrow> string" where
  "fieldNameOf lib field =
     (let start = strings_Index field ''(''; end_idx = strings_Index field '')''
      in if start \<noteq> -1 \<and> end_idx \<noteq> -1 \<and> end_idx > start
         then libTrimSpace lib (substr field (start + 1) end_idx)
         else [])"

text \<open>
  The alias: \<open>asPos\<close> is found in the upper-cased field and used to cut the field itself,
  \<open>field[asPos+4:]\<close>, which panics when the upper-cased field is the longer one and
  \<open>asPos + 4\<close> lies beyond the field.
\<close>

definition aliasOf :: "stringsLib \<Rightarrow> string \<Rightarrow> error + string" where
  "aliasOf lib field =
     (let upperFieldForParsing = libToUpper lib field
      in if strings_Contains upperFieldForParsing '' AS ''
         then (let asPos = strings_Index upperFieldForParsing '' AS ''
               in if asPos \<noteq> -1
                  then bind_err (slice_from field (asPos + 4))
                         (\<lambda>rest. Inr (libTrimSpace lib rest))
                  else Inr [])
         else Inr field)"

text \<open>The body of the loop of \<open>parseAggregateFields\<close>, for one piece of the SELECT list.\<close>

definition parseSelectField :: "stringsLib \<Rightarrow> 'f QueryInfo \<Rightarrow> string \<Rightarrow> error + 'f QueryInfo" where
  "parseSelectField lib info raw =
     (let field = libTrimSpace lib raw in
      if field = ''*'' then Inr (info\<lparr>Fields := Fields info @ [''*'']\<rparr>)
      else if isAggregate (libToUpper lib field)
      then bind_err (aliasOf lib field)
             (\<lambda>alias. Inr (info\<lparr>AggregateFields := AggregateFields info @
                       [\<lparr>Function = funcNameOf (libToUpper lib field),
                         Field = fieldNameOf lib field,
                         Alias = alias\<rparr>]\<rparr>))
      else Inr (info\<lparr>Fields := Fields info @ [cleanBackticks lib field]\<rparr>))"

text \<open>A loop whose body may fault.\<close>

fun foldErr :: "('a \<Rightarrow> 'b \<Rightarrow> error + 'a) \<Rightarrow> 'a \<Rightarrow> 'b list \<Rightarrow> error + 'a" where
  "foldErr f a [] = Inr a"
| "foldErr f a (x # xs) = bind_err (f a x) (\<lambda>a'. foldErr f a' xs)"

definition parseAggregateFields :: "stringsLib \<Rightarrow> string \<Rightarrow> 'f QueryInfo \<Rightarrow> error + 'f QueryInfo" where
  "parseAggregateFields lib fieldsStr info =
     foldErr (parseSelectField lib) (info\<lparr>Fields := [], AggregateFields := []\<rparr>)
       (strings_Split fieldsStr '','')"

definition containsGrafanaVariables :: "string \<Rightarrow> bool" where
  "containsGrafanaVariables query =
     (strings_Contains query ''$__from'' \<or> strings_Contains query ''$__to'')"

text \<open>
  The first loop of \<open>parseWhereClause\<close>: the first relational operator at a position
  \<open>i > 0\<close> followed by a token with a time variable; the token before it is the time field.
\<close>

fun findTimeField :: "string list \<Rightarrow> string option" where
  "findTimeField (prev # part # nxt # rest) =
     (if (part = ''>='' \<or> part = ''<='' \<or> part = ''>'' \<or> part = ''<'') \<and>
         (strings_Contains nxt ''$__from'' \<or> strings_Contains nxt ''$__to'')
      then Some prev
      else findTimeField (part # nxt # rest))"
| "findTimeField parts = None"

definition filterOfParts :: "stringsLib \<Rightarrow> string list \<Rightarrow> 'f FilterInfo list" where
  "filterOfParts lib parts =
     (case parts of
        [l, r] \<Rightarrow>
          [\<lparr>FilterField = libTrimSpace lib l, Operator = ''=='',
            Value = VString (strings_Trim (libTrimSpace lib r) [CHR 0x27, CHR 0x22])\<rparr>]
      | _ \<Rightarrow> [])"

text \<open>The body of the second loop of \<open>parseWhereClause\<close>, for one condition.\<close>

definition parseCondition :: "stringsLib \<Rightarrow> 'f QueryInfo \<Rightarrow> string \<Rightarrow> 'f QueryInfo" where
  "parseCondition lib info raw =
     (let condition = libTrimSpace lib raw in
      if \<not> strings_Contains condition ''$__from'' \<and> \<not> strings_Contains condition ''$__to''
      then (if strings_Contains condition ''==''
            then info\<lparr>AdditionalFilters := AdditionalFilters info @
                   filterOfParts lib (if strings_Contains condition '' == ''
                                      then strings_SplitN2 condition '' == ''
                                      else strings_SplitN2 condition ''=='')\<rparr>
            else if strings_Contains condition ''=''
            then info\<lparr>AdditionalFilters := AdditionalFilters info @
                   filterOfParts lib (if strings_Contains condition '' = ''
                                      then strings_SplitN2 condition '' = ''
                                      else strings_SplitN2 condition ''='')\<rparr>
            else info)
      else info)"

definition parseWhereClause :: "stringsLib \<Rightarrow> string \<Rightarrow> 'f QueryInfo \<Rightarrow> 'f QueryInfo" where
  "parseWhereClause lib whereClause info =
     (let info1 =
            (if strings_Contains whereClause ''$__from'' \<or> strings_Contains whereClause ''$__to''
             then (case findTimeField (libFields lib whereClause) of
                     Some f \<Rightarrow> info\<lparr>TimeField := f\<rparr>
                   | None \<Rightarrow> info)
             else info)
      in foldl (parseCondition lib) info1 (strings_Split whereClause '' AND ''))"

definition parseGroupBy :: "stringsLib \<Rightarrow> string \<Rightarrow> 'f QueryInfo \<Rightarrow> 'f QueryInfo" where
  "parseGroupBy lib groupClause info =
     foldl (\<lambda>i raw. if libTrimSpace lib raw \<noteq> []
                     then i\<lparr>GroupByFields :=
                              GroupByFields i @ [cleanBackticks lib (libTrimSpace lib raw)]\<rparr>
                     else i)
       info (strings_Split groupClause '','')"

definition parseOrderBy :: "stringsLib \<Rightarrow> string \<Rightarrow> 'f QueryInfo \<Rightarrow> 'f QueryInfo" where
  "parseOrderBy lib orderClause info =
     (case libFields lib orderClause of
        [] \<Rightarrow> info
      | p0 # ps \<Rightarrow>
          info\<lparr>OrderField := p0,
               OrderDirection :=
                 (if ps \<noteq> [] \<and> libToUpper lib (hd ps) = ''DESC'' then ''DESC'' else ''ASC'')\<rparr>)"

definition parseLimit :: "stringsLib \<Rightarrow> string \<Rightarrow> int option" where
  "parseLimit lib limitStr =
     (case libFields lib limitStr of
        [] \<Rightarrow> None
      | p0 # ps \<Rightarrow> strconv_Atoi p0)"

text \<open>
  \<open>findGroupByIndex\<close> and \<open>findLimitIndex\<close> try their patterns in turn and return the
  index of the first pattern that occurs.
\<close>

fun firstPatternIndex :: "string \<Rightarrow> string list \<Rightarrow> int" where
  "firstPatternIndex q [] = -1"
| "firstPatternIndex q (p # ps) =
     (if strings_Index q p \<noteq> -1 then strings_Index q p else firstPatternIndex q ps)"

definition findGroupByIndex :: "string \<Rightarrow> int" where
  "findGroupByIndex queryLower =
     firstPatternIndex queryLower
       ['' group by '',
        CHR 0x0A # ''group by '',
        CHR 0x0A # ''  group by '',
        CHR 0x0A # CHR 0x09 # ''group by '',
        CHR 0x0D # CHR 0x0A # ''group by '',
        CHR 0x0D # CHR 0x0A # ''  group by '']"

definition findLimitIndex :: "string \<Rightarrow> int" where
  "findLimitIndex queryLower =
     firstPatternIndex queryLower
       ['' limit '',
        CHR 0x0A # ''limit '',
        CHR 0x0A # ''  limit '',
        CHR 0x0A # CHR 0x09 # ''limit '',
        CHR 0x0D # CHR 0x0A # ''limit '',
        CHR 0x0D # CHR 0x0A # ''  limit '']"

text \<open>The four keyword indices of \<open>parseSQLQueryWithVariables\<close>.\<close>

record clauseIdx =
  whereIdx :: int
  groupIdx :: int
  orderIdx :: int
  limitIdx :: int

definition clauseIndices :: "string \<Rightarrow> clauseIdx" where
  "clauseIndices queryLower =
     \<lparr>whereIdx = strings_Index queryLower '' where '',
      groupIdx = findGroupByIndex queryLower,
      orderIdx = strings_Index queryLower '' order by '',
      limitIdx = findLimitIndex queryLower\<rparr>"

text \<open>Where the collection name ends (\<open>endIdx\<close>).\<close>

definition collectionEndIdx :: "int \<Rightarrow> clauseIdx \<Rightarrow> int" where
  "collectionEndIdx len ix =
     (let e0 = len;
          e1 = (if whereIdx ix \<noteq> -1 then whereIdx ix else e0);
          e2 = (if groupIdx ix \<noteq> -1 \<and> groupIdx ix < e1 then groupIdx ix else e1);
          e3 = (if orderIdx ix \<noteq> -1 \<and> orderIdx ix < e2 then orderIdx ix else e2);
          e4 = (if limitIdx ix \<noteq> -1 \<and> limitIdx ix < e3 then limitIdx ix else e3)
      in e4)"

text \<open>Where the WHERE clause ends (\<open>whereEndIdx\<close>).\<close>

definition whereEndIdx :: "int \<Rightarrow> clauseIdx \<Rightarrow> int" where
  "whereEndIdx len ix =
     (let e0 = len;
          e1 = (if groupIdx ix \<noteq> -1 \<and> groupIdx ix > whereIdx ix then groupIdx ix else e0);
          e2 = (if orderIdx ix \<noteq> -1 \<and> orderIdx ix > whereIdx ix then orderIdx ix else e1);
          e3 = (if limitIdx ix \<noteq> -1 \<and> limitIdx ix > whereIdx ix then limitIdx ix else e2)
      in e3)"

text \<open>Where the GROUP BY clause ends (\<open>groupEndIdx\<close>).\<close>

definition groupEndIdx :: "int \<Rightarrow> clauseIdx \<Rightarrow> int" where
  "groupEndIdx len ix =
     (if orderIdx ix \<noteq> -1 \<and> orderIdx ix > groupIdx ix then orderIdx ix
      else if limitIdx ix \<noteq> -1 \<and> limitIdx ix > groupIdx ix then limitIdx ix
      else len)"

text \<open>Where the ORDER BY clause ends (\<open>orderEndIdx\<close>).\<close>

definition orderEndIdx :: "int \<Rightarrow> clauseIdx \<Rightarrow> int" where
  "orderEndIdx len ix =
     (if limitIdx ix \<noteq> -1 \<and> limitIdx ix > orderIdx ix then limitIdx ix else len)"

definition emptyQueryInfo :: "'f QueryInfo" where
  "emptyQueryInfo =
     \<lparr>Collection = [], Fields = [], TimeField = [], AdditionalFilters = [],
      OrderField = [], OrderDirection = [], Limit = 0, GroupByFields = [],
      AggregateFields = []\<rparr>"

text \<open>The clauses of \<open>parseSQLQueryWithVariables\<close>, in the order of the source.\<close>

definition parseWherePart ::
    "stringsLib \<Rightarrow> string \<Rightarrow> clauseIdx \<Rightarrow> 'f QueryInfo \<Rightarrow> error + 'f QueryInfo" where
  "parseWherePart lib queryOriginal ix info =
     (if whereIdx ix \<noteq> -1
      then bind_err (slice queryOriginal (whereIdx ix + 7)
                       (whereEndIdx (int (length queryOriginal)) ix))
             (\<lambda>whereClause. Inr (parseWhereClause lib (libTrimSpace lib whereClause) info))
      else Inr info)"

definition parseGroupPart ::
    "stringsLib \<Rightarrow> string \<Rightarrow> clauseIdx \<Rightarrow> 'f QueryInfo \<Rightarrow> error + 'f QueryInfo" where
  "parseGroupPart lib queryOriginal ix info =
     (if groupIdx ix \<noteq> -1
      then bind_err (slice queryOriginal (groupIdx ix + 10)
                       (groupEndIdx (int (length queryOriginal)) ix))
             (\<lambda>groupClause. Inr (parseGroupBy lib (libTrimSpace lib groupClause) info))
      else Inr info)"

definition parseOrderPart ::
    "stringsLib \<Rightarrow> string \<Rightarrow> clauseIdx \<Rightarrow> 'f QueryInfo \<Rightarrow> error + 'f QueryInfo" where
  "parseOrderPart lib queryOriginal ix info =
     (if orderIdx ix \<noteq> -1
      then bind_err (slice queryOriginal (orderIdx ix + 10)
                       (orderEndIdx (int (length queryOriginal)) ix))
             (\<lambda>orderClause. Inr (parseOrderBy lib (libTrimSpace lib orderClause) info))
      else Inr info)"

definition parseLimitPart ::
    "stringsLib \<Rightarrow> string \<Rightarrow> clauseIdx \<Rightarrow> 'f QueryInfo \<Rightarrow> error + 'f QueryInfo" where
  "parseLimitPart lib queryOriginal ix info =
     (if limitIdx ix \<noteq> -1
      then bind_err (slice_from queryOriginal (limitIdx ix + 7))
             (\<lambda>limitStr.
                (case parseLimit lib (libTrimSpace lib limitStr) of
                   Some limit \<Rightarrow> Inr (info\<lparr>Limit := limit\<rparr>)
                 | None \<Rightarrow> Inr info))
      else Inr info)"

text \<open>
  The steps of \<open>parseSQLQueryWithVariables\<close> after the test for SELECT and FROM.
\<close>

definition parseClauses ::
    "stringsLib \<Rightarrow> string \<Rightarrow> string \<Rightarrow> int \<Rightarrow> int \<Rightarrow> error + 'f QueryInfo" where
  "parseClauses lib queryOriginal queryLower selectIdx fromIdx =
     bind_err (slice queryOriginal (selectIdx + 7) fromIdx) (\<lambda>fieldsStr.
     bind_err (parseAggregateFields lib (libTrimSpace lib fieldsStr) emptyQueryInfo) (\<lambda>info1.
       let ix = clauseIndices queryLower
       in
       bind_err (slice queryOriginal (fromIdx + 6)
                   (collectionEndIdx (int (length queryOriginal)) ix)) (\<lambda>collectionStr.
       bind_err (parseWherePart lib queryOriginal ix
                   (info1\<lparr>Collection := libTrimSpace lib collectionStr\<rparr>)) (\<lambda>info2.
       bind_err (parseGroupPart lib queryOriginal ix info2) (\<lambda>info3.
       bind_err (parseOrderPart lib queryOriginal ix info3) (\<lambda>info4.
       parseLimitPart lib queryOriginal ix info4))))))"

text \<open>\<open>parseSQLQueryWithVariables\<close>, over a library.\<close>

definition parseSQLQueryWithVariables_lib :: "stringsLib \<Rightarrow> string \<Rightarrow> error + 'f QueryInfo" where
  "parseSQLQueryWithVariables_lib lib query =
     (let queryLower = libToLower lib (libTrimSpace lib query);
          queryOriginal = libTrimSpace lib query;
          selectIdx = strings_Index queryLower ''select '';
          fromIdx = strings_Index queryLower '' from ''
      in if selectIdx = -1 \<or> fromIdx = -1
         then Inl (ParseError ''invalid SQL: missing SELECT or FROM'')
         else parseClauses lib queryOriginal queryLower selectIdx fromIdx)"

text \<open>The parser on queries of ASCII bytes.\<close>

definition parseSQLQueryWithVariables :: "string \<Rightarrow> error + 'f QueryInfo" where
  "parseSQLQueryWithVariables query = parseSQLQueryWithVariables_lib asciiLib query"

section \<open>The query router\<close>

record TimeRange =
  From :: gotime
  To :: gotime

definition containsGroupBy :: "string \<Rightarrow> bool" where
  "containsGroupBy query = strings_Contains (strings_ToLower query) ''group by''"

text \<open>
  The branch of \<open>queryInternal\<close> on the query text and the time range: the native SDK
  path, the FireQL path, or, for an empty query, neither.
\<close>

datatype route = NativeSDK | FireQL | NoQuery

definition routeQuery :: "string \<Rightarrow> TimeRange \<Rightarrow> route" where
  "routeQuery query timeRange =
     (if length query > 0
      then (let hasGrafanaVars = containsGrafanaVariables query;
                hasGroupBy = containsGroupBy query
            in if (hasGrafanaVars \<and> \<not> IsZero (From timeRange) \<and> \<not> IsZero (To timeRange))
                  \<or> hasGroupBy
               then NativeSDK
               else FireQL)
      else NoQuery)"

section \<open>Frames\<close>

text \<open>
  The typed slices a field of a frame is built from; \<open>NoValues\<close> is the nil interface.
\<close>

datatype 'f column =
    NoValues
  | Bools "bool list"
  | Int32s "int list"
  | Int64s "int list"
  | Float64s "'f list"
  | Times "gotime list"
  | RawMessages "string list"
  | Strings "string list"

record 'f field =
  fieldName :: string
  fieldValues :: "'f column"

type_synonym 'f frame = "'f field list"

type_synonym 'f response = "error + 'f frame list"

text \<open>\<open>data.NewField\<close> of the SDK panics on a value that is not one of its slice types.\<close>

definition NewField :: "string \<Rightarrow> 'f column \<Rightarrow> error + 'f field" where
  "NewField name vs =
     (case vs of
        NoValues \<Rightarrow> Inl (Panic ''field specified with unsupported type'')
      | _ \<Rightarrow> Inr \<lparr>fieldName = name, fieldValues = vs\<rparr>)"

section \<open>The FireQL path\<close>

record 'f QueryResult =
  Columns :: "string list"
  Records :: "'f val list list"

text \<open>The conversion \<open>int32(v)\<close> of an \<open>int\<close>.\<close>

definition int32_of_int :: "int \<Rightarrow> int" where
  "int32_of_int i = (i + 2 ^ 31) mod 2 ^ 32 - 2 ^ 31"

definition conversionPanic :: "error" where
  "conversionPanic = Panic ''interface conversion''"

text \<open>
  The type switch of \<open>queryInternal\<close> on one value of a column: the value is appended to
  the slice of its type; the type assertion on the slice collected so far panics when
  that slice is of another type.
\<close>

definition appendValue :: "'f goenv \<Rightarrow> string \<Rightarrow> 'f column \<Rightarrow> 'f val \<Rightarrow> error + 'f column" where
  "appendValue env column vs v =
     (case v of
        VNil \<Rightarrow> Inr vs
      | VBool b \<Rightarrow>
          (case vs of NoValues \<Rightarrow> Inr (Bools [b]) | Bools xs \<Rightarrow> Inr (Bools (xs @ [b]))
           | _ \<Rightarrow> Inl conversionPanic)
      | VInt i \<Rightarrow>
          (case vs of NoValues \<Rightarrow> Inr (Int32s [int32_of_int i])
           | Int32s xs \<Rightarrow> Inr (Int32s (xs @ [int32_of_int i]))
           | _ \<Rightarrow> Inl conversionPanic)
      | VInt32 i \<Rightarrow>
          (case vs of NoValues \<Rightarrow> Inr (Int32s [i]) | Int32s xs \<Rightarrow> Inr (Int32s (xs @ [i]))
           | _ \<Rightarrow> Inl conversionPanic)
      | VInt64 i \<Rightarrow>
          (case vs of NoValues \<Rightarrow> Inr (Int64s [i]) | Int64s xs \<Rightarrow> Inr (Int64s (xs @ [i]))
           | _ \<Rightarrow> Inl conversionPanic)
      | VFloat64 x \<Rightarrow>
          (case vs of NoValues \<Rightarrow> Inr (Float64s [x]) | Float64s xs \<Rightarrow> Inr (Float64s (xs @ [x]))
           | _ \<Rightarrow> Inl conversionPanic)
      | VTime t \<Rightarrow>
          (case vs of NoValues \<Rightarrow> Inr (Times [t]) | Times xs \<Rightarrow> Inr (Times (xs @ [t]))
           | _ \<Rightarrow> Inl conversionPanic)
      | VMap m \<Rightarrow>
          (case jsonMarshal env v of
             Inl err \<Rightarrow> Inl (BadRequest (''json.Marshal : '' @ column @ err))
           | Inr js \<Rightarrow>
               (case vs of NoValues \<Rightarrow> Inr (RawMessages [js])
                | RawMessages xs \<Rightarrow> Inr (RawMessages (xs @ [js]))
                | _ \<Rightarrow> Inl conversionPanic))
      | VList l \<Rightarrow>
          (case jsonMarshal env v of
             Inl err \<Rightarrow> Inl (BadRequest (''json.Marshal : '' @ column @ err))
           | Inr js \<Rightarrow>
               (case vs of NoValues \<Rightarrow> Inr (RawMessages [js])
                | RawMessages xs \<Rightarrow> Inr (RawMessages (xs @ [js]))
                | _ \<Rightarrow> Inl conversionPanic))
      | _ \<Rightarrow>
          (case vs of NoValues \<Rightarrow> Inr (Strings [Sprintf_v env v])
           | Strings xs \<Rightarrow> Inr (Strings (xs @ [Sprintf_v env v]))
           | _ \<Rightarrow> Inl conversionPanic))"

text \<open>
  The loop over the records for the column at index \<open>idx\<close>: a record that is nil or too
  short is skipped.
\<close>

fun columnValues ::
    "'f goenv \<Rightarrow> string \<Rightarrow> nat \<Rightarrow> 'f val list list \<Rightarrow> 'f column \<Rightarrow> error + 'f column" where
  "columnValues env column idx [] vs = Inr vs"
| "columnValues env column idx (r # rest) vs =
     (if idx \<ge> length r then columnValues env column idx rest vs
      else bind_err (appendValue env column vs (r ! idx))
             (\<lambda>vs'. columnValues env column idx rest vs'))"

text \<open>
  The loop over the columns, filling the map \<open>fieldValues\<close> (an association list, the
  latest binding of a name first).
\<close>

fun collectColumns ::
    "'f goenv \<Rightarrow> 'f val list list \<Rightarrow> (nat \<times> string) list \<Rightarrow> (string \<times> 'f column) list
       \<Rightarrow> error + (string \<times> 'f column) list" where
  "collectColumns env records [] fv = Inr fv"
| "collectColumns env records ((idx, column) # cols) fv =
     bind_err (if length records > 0 then columnValues env column idx records NoValues
               else Inr (Strings []))
       (\<lambda>vs. collectColumns env records cols ((column, vs) # fv))"

definition lookupColumn :: "(string \<times> 'f column) list \<Rightarrow> string \<Rightarrow> 'f column" where
  "lookupColumn fv column = (case map_of fv column of None \<Rightarrow> NoValues | Some vs \<Rightarrow> vs)"

text \<open>The loop that builds the frame: one field per column, its name suffixed.\<close>

fun frameFields :: "(string \<times> 'f column) list \<Rightarrow> string list \<Rightarrow> error + 'f frame" where
  "frameFields fv [] = Inr []"
| "frameFields fv (column # cols) =
     bind_err (NewField (column @ ''_USING_FIREQL'') (lookupColumn fv column))
       (\<lambda>f. bind_err (frameFields fv cols) (\<lambda>fs. Inr (f # fs)))"

text \<open>
  The FireQL path of \<open>queryInternal\<close>, from the call of \<open>Execute\<close> on. \<open>execute\<close> is the
  library: \<open>Inl\<close> its error text, \<open>Inr None\<close> a nil result.
\<close>

definition executeFireQL ::
    "'f goenv \<Rightarrow> (string \<Rightarrow> string + 'f QueryResult option) \<Rightarrow> string \<Rightarrow> 'f response" where
  "executeFireQL env execute finalQuery =
     (case execute finalQuery of
        Inl err \<Rightarrow> Inl (BadRequest (''fireql.Execute: '' @ err))
      | Inr None \<Rightarrow> Inl (InternalError ''Query returned nil result'')
      | Inr (Some result) \<Rightarrow>
          (let records = (if length (Records result) > 10000 then take 10000 (Records result)
                          else Records result)
           in bind_err (collectColumns env records (enumerate 0 (Columns result)) [])
                (\<lambda>fv. bind_err (frameFields fv (Columns result)) (\<lambda>frame. Inr [frame]))))"

section \<open>The native path: retrieval\<close>

datatype direction = Asc | Desc

text \<open>What \<open>executeWithNativeSDKForVariables\<close> asks of the store.\<close>

record firestoreQuery =
  fqCollection :: string
  fqWhere :: "(string \<times> string \<times> gotime) list"
  fqOrderBy :: "(string \<times> direction) list"
  fqLimit :: "int option"

definition buildFirestoreQuery :: "'f QueryInfo \<Rightarrow> TimeRange \<Rightarrow> firestoreQuery" where
  "buildFirestoreQuery queryInfo timeRange =
     (let q0 = \<lparr>fqCollection = Collection queryInfo, fqWhere = [], fqOrderBy = [],
                fqLimit = None\<rparr>;
          q1 = (if TimeField queryInfo \<noteq> []
                then q0\<lparr>fqWhere := [(TimeField queryInfo, ''>='', From timeRange),
                                    (TimeField queryInfo, ''<='', To timeRange)]\<rparr>
                else q0);
          q2 = (if OrderField queryInfo \<noteq> [] \<and> length (GroupByFields queryInfo) = 0
                   \<and> length (AggregateFields queryInfo) = 0
                then q1\<lparr>fqOrderBy := [(OrderField queryInfo,
                                       if OrderDirection queryInfo = ''DESC'' then Desc else Asc)]\<rparr>
                else q1);
          q3 = (if Limit queryInfo > 0 then q2\<lparr>fqLimit := Some (Limit queryInfo)\<rparr> else q2)
      in q3)"

section \<open>Grouping and aggregation\<close>

definition convertToFloat :: "'f goenv \<Rightarrow> 'f val \<Rightarrow> 'f option" where
  "convertToFloat env v =
     (case v of
        VFloat64 x \<Rightarrow> Some x
      | VFloat32 x \<Rightarrow> Some x
      | VInt i \<Rightarrow> Some (float64_of_int env i)
      | VInt32 i \<Rightarrow> Some (float64_of_int env i)
      | VInt64 i \<Rightarrow> Some (float64_of_int env i)
      | VString s \<Rightarrow> ParseFloat env s
      | _ \<Rightarrow> None)"

text \<open>
  \<open>doc.Data()\<close> of a snapshot that is not a nil pointer; indexing a nil map gives nil, as
  indexing an empty one does.
\<close>

definition docDataOf :: "'f snapshot \<Rightarrow> 'f document" where
  "docDataOf doc = (case doc of None \<Rightarrow> [] | Some d \<Rightarrow> d)"

definition groupKey :: "'f goenv \<Rightarrow> string list \<Rightarrow> 'f document \<Rightarrow> string" where
  "groupKey env groupByFields docData =
     strings_Join
       (map (\<lambda>groupField. Sprintf_v env (getNestedFieldValue docData groupField)) groupByFields)
       ''|''"

text \<open>
  The map \<open>groups\<close>, as an association list in the order in which the keys first occur
  (Go fixes no order for the later iteration over it). A document is appended to the
  members of its key.
\<close>

fun addToGroup ::
    "string \<Rightarrow> 'f document \<Rightarrow> (string \<times> 'f document list) list
       \<Rightarrow> (string \<times> 'f document list) list" where
  "addToGroup k d [] = [(k, [d])]"
| "addToGroup k d ((k', ds) # gs) =
     (if k = k' then (k', ds @ [d]) # gs else (k', ds) # addToGroup k d gs)"

definition groupDocuments ::
    "'f goenv \<Rightarrow> string list \<Rightarrow> 'f snapshot list \<Rightarrow> (string \<times> 'f document list) list" where
  "groupDocuments env groupByFields filteredDocs =
     foldl (\<lambda>groups doc.
              addToGroup (groupKey env groupByFields (docDataOf doc)) (docDataOf doc) groups)
       [] filteredDocs"

text \<open>The value of the target field of one document, when it is not nil and converts.\<close>

definition numericField :: "'f goenv \<Rightarrow> string \<Rightarrow> 'f document \<Rightarrow> 'f option" where
  "numericField env fld doc =
     (let v = getNestedFieldValue doc fld
      in if v \<noteq> VNil then convertToFloat env v else None)"

definition aggSUM :: "'f goenv \<Rightarrow> string \<Rightarrow> 'f document list \<Rightarrow> 'f" where
  "aggSUM env fld groupDocs =
     foldl (\<lambda>sum doc. case numericField env fld doc of
                         Some numVal \<Rightarrow> fadd env sum numVal
                       | None \<Rightarrow> sum)
       (fzero env) groupDocs"

text \<open>The loop of the AVG case keeps the sum and the count.\<close>

definition avgStep :: "'f goenv \<Rightarrow> string \<Rightarrow> 'f \<times> int \<Rightarrow> 'f document \<Rightarrow> 'f \<times> int" where
  "avgStep env fld acc doc =
     (case numericField env fld doc of
        Some numVal \<Rightarrow> (fadd env (fst acc) numVal, snd acc + 1)
      | None \<Rightarrow> acc)"

definition aggAVG :: "'f goenv \<Rightarrow> string \<Rightarrow> 'f document list \<Rightarrow> 'f" where
  "aggAVG env fld groupDocs =
     (let acc = foldl (avgStep env fld) (fzero env, 0) groupDocs
      in if snd acc > 0 then fdiv env (fst acc) (float64_of_int env (snd acc))
         else fzero env)"

definition aggMIN :: "'f goenv \<Rightarrow> string \<Rightarrow> 'f document list \<Rightarrow> 'f" where
  "aggMIN env fld groupDocs =
     (case foldl (\<lambda>m doc. case numericField env fld doc of
                             Some numVal \<Rightarrow>
                               (case m of
                                  None \<Rightarrow> Some numVal
                                | Some cur \<Rightarrow> if fless env numVal cur then Some numVal else m)
                           | None \<Rightarrow> m)
             None groupDocs of
        Some m \<Rightarrow> m
      | None \<Rightarrow> fzero env)"

definition aggMAX :: "'f goenv \<Rightarrow> string \<Rightarrow> 'f document list \<Rightarrow> 'f" where
  "aggMAX env fld groupDocs =
     (case foldl (\<lambda>m doc. case numericField env fld doc of
                             Some numVal \<Rightarrow>
                               (case m of
                                  None \<Rightarrow> Some numVal
                                | Some cur \<Rightarrow> if fless env cur numVal then Some numVal else m)
                           | None \<Rightarrow> m)
             None groupDocs of
        Some m \<Rightarrow> m
      | None \<Rightarrow> fzero env)"

definition computeAggregate :: "'f goenv \<Rightarrow> AggregateInfo \<Rightarrow> 'f document list \<Rightarrow> 'f" where
  "computeAggregate env aggField groupDocs =
     (if Function aggField = ''COUNT'' then float64_of_int env (int (length groupDocs))
      else if Function aggField = ''SUM'' then aggSUM env (Field aggField) groupDocs
      else if Function aggField = ''AVG'' then aggAVG env (Field aggField) groupDocs
      else if Function aggField = ''MIN'' then aggMIN env (Field aggField) groupDocs
      else if Function aggField = ''MAX'' then aggMAX env (Field aggField) groupDocs
      else fzero env)"

record 'f AggregatedResult =
  GroupValues :: "'f val list"
  AggregateValues :: "'f val list"
  SortValue :: "'f"

text \<open>The first part after a part that reads \<open>AS\<close>.\<close>

fun aliasAfterAS :: "string list \<Rightarrow> string option" where
  "aliasAfterAS (part # nxt # rest) =
     (if strings_ToUpper part = ''AS'' then Some nxt else aliasAfterAS (nxt # rest))"
| "aliasAfterAS parts = None"

text \<open>
  The alias cleaned of function syntax; the source computes it twice, for the sort value
  (\<open>cleanedAlias\<close>) and for the name of the column (\<open>fieldName\<close>).
\<close>

definition cleanAlias :: "AggregateInfo \<Rightarrow> string" where
  "cleanAlias aggField =
     (if strings_Contains (Alias aggField) ''('' \<and> strings_Contains (Alias aggField) '')''
      then (if strings_Contains (strings_ToUpper (Alias aggField)) '' AS ''
            then (case aliasAfterAS (strings_Split (Alias aggField) '' '') of
                    Some a \<Rightarrow> a
                  | None \<Rightarrow> Alias aggField)
            else strings_ToLower (Function aggField))
      else Alias aggField)"

definition setSortValue :: "'f goenv \<Rightarrow> 'f val \<Rightarrow> 'f AggregatedResult \<Rightarrow> 'f AggregatedResult" where
  "setSortValue env v r =
     (case convertToFloat env v of Some sortVal \<Rightarrow> r\<lparr>SortValue := sortVal\<rparr> | None \<Rightarrow> r)"

text \<open>The body of the loop over the aggregate fields, for one group.\<close>

definition aggregateStep ::
    "'f goenv \<Rightarrow> 'f QueryInfo \<Rightarrow> 'f document list \<Rightarrow> 'f AggregatedResult \<Rightarrow> AggregateInfo
       \<Rightarrow> 'f AggregatedResult" where
  "aggregateStep env queryInfo groupDocs r aggField =
     (let aggregateValue = VFloat64 (computeAggregate env aggField groupDocs);
          r1 = r\<lparr>AggregateValues := AggregateValues r @ [aggregateValue]\<rparr>
      in if OrderField queryInfo \<noteq> [] \<and>
            (OrderField queryInfo = Alias aggField \<or>
             OrderField queryInfo = cleanAlias aggField \<or>
             OrderField queryInfo = strings_ToLower (Function aggField))
         then setSortValue env aggregateValue r1
         else r1)"

definition groupSortStep ::
    "'f goenv \<Rightarrow> 'f QueryInfo \<Rightarrow> 'f AggregatedResult \<Rightarrow> nat \<times> string \<Rightarrow> 'f AggregatedResult" where
  "groupSortStep env queryInfo r ig =
     (if OrderField queryInfo = snd ig \<and> fst ig < length (GroupValues r)
      then setSortValue env (GroupValues r ! fst ig) r
      else r)"

text \<open>The body of the loop over the groups: the result of one group.\<close>

definition aggregateGroup ::
    "'f goenv \<Rightarrow> 'f QueryInfo \<Rightarrow> 'f document list \<Rightarrow> 'f AggregatedResult" where
  "aggregateGroup env queryInfo groupDocs =
     (let r0 = \<lparr>GroupValues =
                  (if length groupDocs > 0
                   then map (getNestedFieldValue (hd groupDocs)) (GroupByFields queryInfo)
                   else []),
                AggregateValues = [], SortValue = fzero env\<rparr>;
          r1 = foldl (aggregateStep env queryInfo groupDocs) r0 (AggregateFields queryInfo)
      in if OrderField queryInfo \<noteq> []
         then foldl (groupSortStep env queryInfo) r1 (enumerate 0 (GroupByFields queryInfo))
         else r1)"

text \<open>Step 3, first loop: a result whose sort value is 0 is matched again.\<close>

definition retrySortValue ::
    "'f goenv \<Rightarrow> 'f QueryInfo \<Rightarrow> 'f AggregatedResult \<Rightarrow> 'f AggregatedResult" where
  "retrySortValue env queryInfo result =
     (if feq env (SortValue result) (fzero env)
      then foldl (\<lambda>r ja.
                    if (OrderField queryInfo = Alias (snd ja) \<or>
                        OrderField queryInfo = strings_ToLower (Function (snd ja)))
                       \<and> fst ja < length (AggregateValues result)
                    then setSortValue env (AggregateValues result ! fst ja) r
                    else r)
             result (enumerate 0 (AggregateFields queryInfo))
      else result)"

definition shouldSwap ::
    "'f goenv \<Rightarrow> 'f QueryInfo \<Rightarrow> 'f AggregatedResult \<Rightarrow> 'f AggregatedResult \<Rightarrow> bool" where
  "shouldSwap env queryInfo a b =
     (if OrderDirection queryInfo = ''DESC'' then fless env (SortValue a) (SortValue b)
      else fless env (SortValue b) (SortValue a))"

text \<open>
  The inner loop of the sort for a fixed \<open>i\<close>: the element at \<open>i\<close> is exchanged with each
  later element it should be swapped with. The result is the final element at \<open>i\<close> and
  the later elements.
\<close>

fun sweep :: "('a \<Rightarrow> 'a \<Rightarrow> bool) \<Rightarrow> 'a \<Rightarrow> 'a list \<Rightarrow> 'a \<times> 'a list" where
  "sweep sw x [] = (x, [])"
| "sweep sw x (y # ys) =
     (if sw x y then (fst (sweep sw y ys), x # snd (sweep sw y ys))
      else (fst (sweep sw x ys), y # snd (sweep sw x ys)))"

lemma length_sweep: "length (snd (sweep sw x ys)) = length ys"
  by (induction ys arbitrary: x) auto

function exchangeSort :: "('a \<Rightarrow> 'a \<Rightarrow> bool) \<Rightarrow> 'a list \<Rightarrow> 'a list" where
  "exchangeSort sw [] = []"
| "exchangeSort sw (x # xs) = fst (sweep sw x xs) # exchangeSort sw (snd (sweep sw x xs))"
  by pat_completeness auto
termination
  by (relation "measure (\<lambda>(sw, xs). length xs)") (auto simp: length_sweep)

text \<open>Step 4: the limit on the results.\<close>

definition applyLimit :: "int \<Rightarrow> 'a list \<Rightarrow> 'a list" where
  "applyLimit limit results =
     (if limit > 0 \<and> limit < int (length results) then take (nat limit) results
      else results)"

text \<open>Step 5: the columns of the frame.\<close>

definition groupColumn :: "'f goenv \<Rightarrow> 'f AggregatedResult list \<Rightarrow> nat \<times> string \<Rightarrow> 'f field" where
  "groupColumn env results ig =
     \<lparr>fieldName = snd ig,
      fieldValues =
        Strings (map (\<lambda>r. if fst ig < length (GroupValues r)
                           then Sprintf_v env (GroupValues r ! fst ig) else [])
                   results)\<rparr>"

definition aggregateColumn ::
    "'f goenv \<Rightarrow> 'f AggregatedResult list \<Rightarrow> nat \<times> AggregateInfo \<Rightarrow> 'f field" where
  "aggregateColumn env results ia =
     \<lparr>fieldName = cleanAlias (snd ia),
      fieldValues =
        Float64s (map (\<lambda>r. if fst ia < length (AggregateValues r)
                            then (case convertToFloat env (AggregateValues r ! fst ia) of
                                    Some v \<Rightarrow> v
                                  | None \<Rightarrow> fzero env)
                            else fzero env)
                    results)\<rparr>"

text \<open>Steps 1 to 4: the results that the frame is built from.\<close>

definition aggregatedResults ::
    "'f goenv \<Rightarrow> 'f snapshot list \<Rightarrow> 'f QueryInfo \<Rightarrow> 'f AggregatedResult list" where
  "aggregatedResults env docs queryInfo =
     (let filteredDocs = applyManualFiltering env docs (AdditionalFilters queryInfo);
          groups = groupDocuments env (GroupByFields queryInfo) filteredDocs;
          results = map (\<lambda>g. aggregateGroup env queryInfo (snd g)) groups;
          sorted = (if OrderField queryInfo \<noteq> []
                    then exchangeSort (shouldSwap env queryInfo)
                           (map (retrySortValue env queryInfo) results)
                    else results)
      in applyLimit (Limit queryInfo) sorted)"

definition processGroupByQueryWithOrdering ::
    "'f goenv \<Rightarrow> 'f snapshot list \<Rightarrow> 'f QueryInfo \<Rightarrow> 'f frame" where
  "processGroupByQueryWithOrdering env docs queryInfo =
     (if length docs = 0
      then map (\<lambda>groupField. \<lparr>fieldName = groupField, fieldValues = Strings []\<rparr>)
             (GroupByFields queryInfo)
           @ map (\<lambda>aggField. \<lparr>fieldName = Alias aggField, fieldValues = Float64s []\<rparr>)
               (AggregateFields queryInfo)
      else (let results = aggregatedResults env docs queryInfo
            in map (groupColumn env results) (enumerate 0 (GroupByFields queryInfo))
               @ map (aggregateColumn env results) (enumerate 0 (AggregateFields queryInfo))))"

section \<open>The native path\<close>

text \<open>
  \<open>executeWithNativeSDKForVariables\<close>. \<open>client\<close> is what \<open>newFirestoreClient\<close> returns:
  its error text, or the store, which answers a query with an error text or the
  documents. \<open>plain\<close> stands for \<open>convertFirestoreDocsToResponseWithFields\<close>, the
  conversion of the queries that do not aggregate.
\<close>

definition executeWithNativeSDKForVariables ::
    "'f goenv \<Rightarrow> (string + (firestoreQuery \<Rightarrow> string + 'f snapshot list))
       \<Rightarrow> ('f snapshot list \<Rightarrow> 'f QueryInfo \<Rightarrow> 'f response)
       \<Rightarrow> string \<Rightarrow> TimeRange \<Rightarrow> 'f response" where
  "executeWithNativeSDKForVariables env client plain query timeRange =
     (case client of
        Inl err \<Rightarrow> Inl (BadRequest (''Firestore client: '' @ err))
      | Inr store \<Rightarrow>
          (case parseSQLQueryWithVariables query of
             Inl (ParseError msg) \<Rightarrow> Inl (BadRequest (''Query parsing: '' @ msg))
           | Inl fault \<Rightarrow> Inl fault
           | Inr queryInfo \<Rightarrow>
               (case store (buildFirestoreQuery queryInfo timeRange) of
                  Inl err \<Rightarrow> Inl (BadRequest (''Native query: '' @ err))
                | Inr docs \<Rightarrow>
                    (let docs1 = (if length (AdditionalFilters queryInfo) > 0
                                  then applyManualFiltering env docs (AdditionalFilters queryInfo)
                                  else docs)
                     in if length (GroupByFields queryInfo) > 0
                           \<or> length (AggregateFields queryInfo) > 0
                        then Inr [processGroupByQueryWithOrdering env docs1 queryInfo]
                        else plain docs1 queryInfo))))"

section \<open>The dispatch of a query\<close>

text \<open>
  \<open>queryInternal\<close>, from the test of the query text on; the decoding of the request and
  of the settings before it is left out. An empty query gives a response without frames.
\<close>

definition queryInternal ::
    "'f goenv \<Rightarrow> (string \<Rightarrow> string + 'f QueryResult option)
       \<Rightarrow> (string + (firestoreQuery \<Rightarrow> string + 'f snapshot list))
       \<Rightarrow> ('f snapshot list \<Rightarrow> 'f QueryInfo \<Rightarrow> 'f response)
       \<Rightarrow> string \<Rightarrow> TimeRange \<Rightarrow> 'f response" where
  "queryInternal env execute client plain query timeRange =
     (case routeQuery query timeRange of
        NativeSDK \<Rightarrow> executeWithNativeSDKForVariables env client plain query timeRange
      | FireQL \<Rightarrow> executeFireQL env execute query
      | NoQuery \<Rightarrow> Inr [])"

section \<open>Specification predicates and an environment for evaluation\<close>

text \<open>
  What the specification asks of a document that passes a sequence of filters: for every
  filter, the field resolves to a value that is not nil and renders as the filter's value
  does.
\<close>

definition satisfiesFilter :: "'f goenv \<Rightarrow> 'f snapshot \<Rightarrow> 'f FilterInfo \<Rightarrow> bool" where
  "satisfiesFilter env doc f =
     (getNestedFieldValue (docDataOf doc) (FilterField f) \<noteq> VNil \<and>
      Sprintf_v env (getNestedFieldValue (docDataOf doc) (FilterField f))
        = Sprintf_v env (Value f))"

definition satisfiesAll :: "'f goenv \<Rightarrow> 'f FilterInfo list \<Rightarrow> 'f snapshot \<Rightarrow> bool" where
  "satisfiesAll env filters doc = list_all (satisfiesFilter env doc) filters"

text \<open>Two documents are members of one group.\<close>

definition sameGroup ::
    "(string \<times> 'f document list) list \<Rightarrow> 'f document \<Rightarrow> 'f document \<Rightarrow> bool" where
  "sameGroup groups d1 d2 = list_ex (\<lambda>g. d1 \<in> set (snd g) \<and> d2 \<in> set (snd g)) groups"

text \<open>The renderings of the group fields of a document, one per field.\<close>

definition groupStrings :: "'f goenv \<Rightarrow> string list \<Rightarrow> 'f document \<Rightarrow> string list" where
  "groupStrings env groupByFields docData =
     map (\<lambda>groupField. Sprintf_v env (getNestedFieldValue docData groupField)) groupByFields"

text \<open>
  The values of the target field that convert to \<open>float64\<close>, over the members of a group,
  in their order.
\<close>

definition coercedValues :: "'f goenv \<Rightarrow> string \<Rightarrow> 'f document list \<Rightarrow> 'f list" where
  "coercedValues env fld groupDocs =
     List.map_filter (\<lambda>doc. convertToFloat env (getNestedFieldValue doc fld)) groupDocs"


text \<open>The pairs of a key and a member document of its group.\<close>

definition members :: "(string \<times> 'f document list) list \<Rightarrow> (string \<times> 'f document) set" where
  "members gs = {(k, d). \<exists>ds. (k, ds) \<in> set gs \<and> d \<in> set ds}"

text \<open>
  An environment in which \<open>float64\<close> is replaced by the integers, for evaluating the
  functions on documents whose numbers are integers; the division is the integer one.
\<close>

definition intEnv :: "int goenv" where
  "intEnv =
     \<lparr>fmtOther = (\<lambda>v. ''?''),
      ParseFloat = strconv_Atoi,
      float64_of_int = (\<lambda>i. i),
      fzero = 0,
      fadd = (\<lambda>a b. a + b),
      fdiv = (\<lambda>a b. a div b),
      fless = (\<lambda>a b. a < b),
      feq = (\<lambda>a b. a = b),
      jsonMarshal = (\<lambda>v. Inr ''{}'')\<rparr>"

text \<open>
  The values of \<open>float64\<close> with the special ones: the finite values as rationals (the
  rounding, the overflow and the sign of zero are left out), the two infinities, and NaN,
  with the arithmetic and the comparisons of IEEE 754 on the special values.
\<close>

datatype f64 = Finite rat | PosInf | NegInf | NaN

fun f64_add :: "f64 \<Rightarrow> f64 \<Rightarrow> f64" where
  "f64_add NaN y = NaN"
| "f64_add x NaN = NaN"
| "f64_add PosInf NegInf = NaN"
| "f64_add NegInf PosInf = NaN"
| "f64_add PosInf y = PosInf"
| "f64_add x PosInf = PosInf"
| "f64_add NegInf y = NegInf"
| "f64_add x NegInf = NegInf"
| "f64_add (Finite a) (Finite b) = Finite (a + b)"

fun f64_div :: "f64 \<Rightarrow> f64 \<Rightarrow> f64" where
  "f64_div NaN y = NaN"
| "f64_div x NaN = NaN"
| "f64_div (Finite a) (Finite b) =
     (if b = 0 then (if a = 0 then NaN else if 0 < a then PosInf else NegInf)
      else Finite (a / b))"
| "f64_div (Finite a) y = Finite 0"
| "f64_div PosInf (Finite b) = (if b < 0 then NegInf else PosInf)"
| "f64_div NegInf (Finite b) = (if b < 0 then PosInf else NegInf)"
| "f64_div x y = NaN"

fun f64_less :: "f64 \<Rightarrow> f64 \<Rightarrow> bool" where
  "f64_less NaN y = False"
| "f64_less x NaN = False"
| "f64_less (Finite a) (Finite b) = (a < b)"
| "f64_less x NegInf = False"
| "f64_less NegInf y = True"
| "f64_less PosInf y = False"
| "f64_less x PosInf = True"

definition f64_eq :: "f64 \<Rightarrow> f64 \<Rightarrow> bool" where
  "f64_eq x y = (x \<noteq> NaN \<and> x = y)"

text \<open>
  \<open>strconv.ParseFloat\<close> on the special values, which it accepts in any case: \<open>nan\<close>, and
  \<open>inf\<close> or \<open>infinity\<close> with an optional sign; and on the decimal integers. The other
  numeric forms are not evaluated in this environment.
\<close>

definition parseFloatSpecial :: "string \<Rightarrow> f64 option" where
  "parseFloatSpecial s =
     (let l = strings_ToLower s
      in if l = ''nan'' then Some NaN
         else if l = ''inf'' \<or> l = ''+inf'' \<or> l = ''infinity'' \<or> l = ''+infinity''
         then Some PosInf
         else if l = ''-inf'' \<or> l = ''-infinity'' then Some NegInf
         else map_option (\<lambda>i. Finite (of_int i)) (strconv_Atoi s))"

definition f64Env :: "f64 goenv" where
  "f64Env =
     \<lparr>fmtOther = (\<lambda>v. ''?''),
      ParseFloat = parseFloatSpecial,
      float64_of_int = (\<lambda>i. Finite (of_int i)),
      fzero = Finite 0,
      fadd = f64_add,
      fdiv = f64_div,
      fless = f64_less,
      feq = f64_eq,
      jsonMarshal = (\<lambda>v. Inr ''{}'')\<rparr>"

text \<open>A store that holds the given documents and honours the limit of a query.\<close>

definition limitingStore :: "'f snapshot list \<Rightarrow> firestoreQuery \<Rightarrow> string + 'f snapshot list" where
  "limitingStore docs q =
     (case fqLimit q of None \<Rightarrow> Inr docs | Some n \<Rightarrow> Inr (take (nat n) docs))"

section \<open>Properties of the sequencing of steps\<close>

lemma bind_err_Inr: "bind_err r f = Inr y \<Longrightarrow> \<exists>x. r = Inr x \<and> f x = Inr y"
  by (cases r) (simp_all add: bind_err_def)



section \<open>Properties of the manual filter\<close>

lemma descend_Nil: "descend [] parts = VNil"
proof (cases parts)
  case Nil
  then show ?thesis by simp
next
  case (Cons part rest)
  then show ?thesis by (cases rest) (simp_all add: lookup_def)
qed

lemma getNestedFieldValue_Nil: "getNestedFieldValue [] fieldPath = VNil"
  by (simp add: getNestedFieldValue_def lookup_def descend_Nil)

lemma passesFilters_satisfiesAll:
  "list_all (\<lambda>f. Operator f = ''=='') filters \<Longrightarrow>
   passesFilters env d filters = satisfiesAll env filters (Some d)"
  by (induction filters) (auto simp: satisfiesAll_def satisfiesFilter_def docDataOf_def Let_def)

lemma filterLoop_filter:
  "filterLoop env docs filters =
     filter (\<lambda>doc. case doc of None \<Rightarrow> False | Some d \<Rightarrow> passesFilters env d filters) docs"
  by (induction env docs filters rule: filterLoop.induct) auto

lemma satisfiesAll_None: "filters \<noteq> [] \<Longrightarrow> \<not> satisfiesAll env filters None"
  by (cases filters)
     (auto simp: satisfiesAll_def satisfiesFilter_def docDataOf_def getNestedFieldValue_Nil)

text \<open>
  C5. For every document sequence and every sequence of equality filters (each with the
  operator \<open>==\<close>), \<open>applyManualFiltering\<close> returns exactly the documents, in their order,
  that satisfy every filter: the dotted path of the filter resolves to a value that is not
  nil and whose \<open>%v\<close> rendering equals that of the filter's value. A document in which a
  filter's field resolves to nil is therefore excluded.
\<close>

theorem applyManualFiltering_spec:
  assumes eq: "list_all (\<lambda>f. Operator f = ''=='') filters"
  shows "applyManualFiltering env docs filters = filter (satisfiesAll env filters) docs"
proof (cases "filters = []")
  case True
  then show ?thesis by (simp add: applyManualFiltering_def satisfiesAll_def)
next
  case False
  have "(case doc of None \<Rightarrow> False | Some d \<Rightarrow> passesFilters env d filters)
          = satisfiesAll env filters doc" for doc
    using False eq by (cases doc) (simp_all add: satisfiesAll_None passesFilters_satisfiesAll)
  then have "filterLoop env docs filters = filter (satisfiesAll env filters) docs"
    by (simp add: filterLoop_filter)
  then show ?thesis using False by (auto simp: applyManualFiltering_def)
qed

theorem applyManualFiltering_spec_witness:
  "list_all (\<lambda>f. Operator f = ''=='')
     [\<lparr>FilterField = ''a.b'', Operator = ''=='', Value = VString ''7'' :: int val\<rparr>] \<and>
   applyManualFiltering intEnv
     [Some [(''a'', VMap [(''b'', VString ''7'')])],
      Some [(''a'', VString ''7'')],
      None,
      Some [(''a'', VMap [(''b'', VInt 7)]), (''c'', VBool True)],
      Some [(''a'', VMap [(''b'', VInt 8)])]]
     [\<lparr>FilterField = ''a.b'', Operator = ''=='', Value = VString ''7''\<rparr>]
   = [Some [(''a'', VMap [(''b'', VString ''7'')])],
      Some [(''a'', VMap [(''b'', VInt 7)]), (''c'', VBool True)]]"
proof -
  let ?fs = "[\<lparr>FilterField = ''a.b'', Operator = ''=='', Value = VString ''7'' :: int val\<rparr>]"
  let ?docs = "[Some [(''a'', VMap [(''b'', VString ''7'')])],
      Some [(''a'', VString ''7'')],
      None,
      Some [(''a'', VMap [(''b'', VInt 7)]), (''c'', VBool True)],
      Some [(''a'', VMap [(''b'', VInt 8 :: int val)])]]"
  have h: "list_all (\<lambda>f. Operator f = ''=='') ?fs" by simp
  have e: "filter (satisfiesAll intEnv ?fs) ?docs
             = [Some [(''a'', VMap [(''b'', VString ''7'')])],
                Some [(''a'', VMap [(''b'', VInt 7)]), (''c'', VBool True)]]"
    by code_simp
  have "applyManualFiltering intEnv ?docs ?fs = filter (satisfiesAll intEnv ?fs) ?docs"
    by (rule applyManualFiltering_spec [OF h])
  also note e
  finally have r: "applyManualFiltering intEnv ?docs ?fs
      = [Some [(''a'', VMap [(''b'', VString ''7'')])],
         Some [(''a'', VMap [(''b'', VInt 7)]), (''c'', VBool True)]]" .
  from h r show ?thesis by (rule conjI)
qed

text \<open>
  C9. The manual filter is idempotent: applied to its own output with the same filters, it
  returns that output. So the second application on the GROUP BY path, inside
  \<open>processGroupByQueryWithOrdering\<close>, does not change the filtered documents.
\<close>

theorem applyManualFiltering_idempotent:
  "applyManualFiltering env (applyManualFiltering env docs filters) filters
     = applyManualFiltering env docs filters"
  by (simp add: applyManualFiltering_def filterLoop_filter)

section \<open>Properties of the AVG aggregate\<close>

lemma numericField_convertToFloat:
  "numericField env fld doc = convertToFloat env (getNestedFieldValue doc fld)"
  by (simp add: numericField_def convertToFloat_def Let_def)

lemma coercedValues_Nil: "coercedValues env fld [] = []"
  by (simp add: coercedValues_def List.map_filter_simps)

lemma coercedValues_Cons:
  "coercedValues env fld (d # ds) =
     (case convertToFloat env (getNestedFieldValue d fld) of
        None \<Rightarrow> coercedValues env fld ds
      | Some x \<Rightarrow> x # coercedValues env fld ds)"
  by (cases "convertToFloat env (getNestedFieldValue d fld)")
     (simp_all add: coercedValues_def List.map_filter_simps)

lemma foldl_avgStep:
  "foldl (avgStep env fld) (s, c) docs =
     (foldl (fadd env) s (coercedValues env fld docs),
      c + int (length (coercedValues env fld docs)))"
proof (induction docs arbitrary: s c)
  case Nil
  then show ?case by (simp add: coercedValues_Nil)
next
  case (Cons d ds)
  then show ?case
    by (cases "convertToFloat env (getNestedFieldValue d fld)")
       (simp_all add: coercedValues_Cons avgStep_def numericField_convertToFloat)
qed

text \<open>
  C7, amended. The AVG computation is total and never divides by a zero count: over the
  members of any group, with \<open>xs\<close> the values of the target field that convert to
  \<open>float64\<close>, it returns 0.0 when \<open>xs\<close> is empty, and otherwise the sum of \<open>xs\<close>, added from
  the left starting at 0.0, divided by the length of \<open>xs\<close>, which is then positive. That
  quotient is NaN when the arithmetic makes it so, as the counterexample below shows.
\<close>

theorem aggAVG_spec:
  "aggAVG env fld groupDocs =
     (if coercedValues env fld groupDocs = [] then fzero env
      else fdiv env (foldl (fadd env) (fzero env) (coercedValues env fld groupDocs))
             (float64_of_int env (int (length (coercedValues env fld groupDocs)))))"
  by (simp add: aggAVG_def foldl_avgStep)

text \<open>
  The average of 1, of the string \<open>2\<close> and of 6, beside a boolean, a nil and a missing
  field, is 3; a group in which nothing converts has the average 0.0.
\<close>

theorem aggAVG_spec_witness:
  "coercedValues f64Env ''amt''
     [[(''amt'', VInt64 1)], [(''amt'', VBool True)], [(''amt'', VString ''2'')],
      [(''amt'', VNil)], [(''other'', VInt64 5)], [(''amt'', VFloat64 (Finite 6))]]
     = [Finite 1, Finite 2, Finite 6] \<and>
   aggAVG f64Env ''amt''
     [[(''amt'', VInt64 1)], [(''amt'', VBool True)], [(''amt'', VString ''2'')],
      [(''amt'', VNil)], [(''other'', VInt64 5)], [(''amt'', VFloat64 (Finite 6))]]
     = Finite 3 \<and>
   coercedValues f64Env ''amt''
     [[(''amt'', VBool True)], [(''amt'', VString ''x'')], [(''other'', VInt64 5)]] = [] \<and>
   aggAVG f64Env ''amt''
     [[(''amt'', VBool True)], [(''amt'', VString ''x'')], [(''other'', VInt64 5)]] = Finite 0"
proof -
  let ?docs = "[[(''amt'', VInt64 1)], [(''amt'', VBool True)], [(''amt'', VString ''2'')],
      [(''amt'', VNil)], [(''other'', VInt64 5)], [(''amt'', VFloat64 (Finite 6))]]"
  let ?none = "[[(''amt'', VBool True)], [(''amt'', VString ''x'')],
      [(''other'', VInt64 5 :: f64 val)]]"
  have c1: "coercedValues f64Env ''amt'' ?docs = [Finite 1, Finite 2, Finite 6]"
    by code_simp
  have c2: "coercedValues f64Env ''amt'' ?none = []"
    by code_simp
  have a1: "aggAVG f64Env ''amt'' ?docs = Finite 3"
    using aggAVG_spec [of f64Env "''amt''" ?docs] c1 by (simp add: f64Env_def)
  have a2: "aggAVG f64Env ''amt'' ?none = Finite 0"
    using aggAVG_spec [of f64Env "''amt''" ?none] c2 by (simp add: f64Env_def)
  from c1 a1 c2 a2 show ?thesis by (intro conjI)
qed

text \<open>
  The string \<open>NaN\<close> converts, to NaN, and the average of it and 4 is NaN.
\<close>

theorem aggAVG_NaN:
  "convertToFloat f64Env (VString ''NaN'') = Some NaN \<and>
   coercedValues f64Env ''v'' [[(''v'', VString ''NaN'')], [(''v'', VInt64 4)]]
     = [NaN, Finite 4] \<and>
   aggAVG f64Env ''v'' [[(''v'', VString ''NaN'')], [(''v'', VInt64 4)]] = NaN"
  by code_simp

section \<open>Properties of the router\<close>

text \<open>
  C4, amended. For every non-empty query string and every time window, the router takes
  the native path exactly when the query contains \<open>$__from\<close> or \<open>$__to\<close> and both bounds of
  the window are non-zero, or its lower-cased text contains \<open>group by\<close>; otherwise it takes
  the FireQL path, which is given the query string unchanged. For the empty query string
  it takes neither path, and the response has no frames.
\<close>

theorem route_spec:
  "(query \<noteq> [] \<longrightarrow>
      (routeQuery query timeRange = NativeSDK) =
           (((strings_Contains query ''$__from'' \<or> strings_Contains query ''$__to'')
              \<and> \<not> IsZero (From timeRange) \<and> \<not> IsZero (To timeRange))
            \<or> strings_Contains (strings_ToLower query) ''group by'')
         \<and> (routeQuery query timeRange = FireQL) =
           (\<not> (((strings_Contains query ''$__from'' \<or> strings_Contains query ''$__to'')
                 \<and> \<not> IsZero (From timeRange) \<and> \<not> IsZero (To timeRange))
               \<or> strings_Contains (strings_ToLower query) ''group by''))
         \<and> queryInternal env execute client plain query timeRange =
             (if routeQuery query timeRange = NativeSDK
              then executeWithNativeSDKForVariables env client plain query timeRange
              else executeFireQL env execute query))
   \<and> (query = [] \<longrightarrow>
         routeQuery query timeRange = NoQuery
         \<and> queryInternal env execute client plain query timeRange = Inr [])"
  by (auto simp: routeQuery_def queryInternal_def containsGrafanaVariables_def
        containsGroupBy_def Let_def)

theorem route_spec_witness:
  "''SELECT * FROM t WHERE ts >= $__from'' \<noteq> [] \<and>
   routeQuery ''SELECT * FROM t WHERE ts >= $__from''
     \<lparr>From = GoTime 0 0, To = GoTime 0 0\<rparr> = FireQL \<and>
   routeQuery ''SELECT * FROM t WHERE ts >= $__from''
     \<lparr>From = GoTime 63000000000 0, To = GoTime 63000003600 0\<rparr> = NativeSDK \<and>
   queryInternal intEnv (\<lambda>q. Inl ''unavailable'') (Inl ''unavailable'') (\<lambda>docs info. Inr [])
     [] \<lparr>From = GoTime 63000000000 0, To = GoTime 63000003600 0\<rparr> = Inr []"
proof -
  let ?q = "''SELECT * FROM t WHERE ts >= $__from''"
  let ?zero = "\<lparr>From = GoTime 0 0, To = GoTime 0 0\<rparr>"
  let ?hour = "\<lparr>From = GoTime 63000000000 0, To = GoTime 63000003600 0\<rparr>"
  have h: "?q \<noteq> []" by simp
  have v: "strings_Contains ?q ''$__from''" by code_simp
  have g: "\<not> strings_Contains (strings_ToLower ?q) ''group by''" by code_simp
  have z: "IsZero (From ?zero)" by (simp add: IsZero_def)
  have n: "\<not> IsZero (From ?hour) \<and> \<not> IsZero (To ?hour)" by (simp add: IsZero_def)
  note nonempty = route_spec [THEN conjunct1, rule_format, OF h]
  from nonempty [of ?zero] v g z have a: "routeQuery ?q ?zero = FireQL" by blast
  from nonempty [of ?hour] v n have b: "routeQuery ?q ?hour = NativeSDK" by blast
  have c: "queryInternal intEnv (\<lambda>q. Inl ''unavailable'') (Inl ''unavailable'')
             (\<lambda>docs info. Inr []) [] ?hour = Inr []"
    by (rule route_spec [THEN conjunct2, rule_format, OF refl, THEN conjunct2])
  from h a b c show ?thesis by (intro conjI)
qed

text \<open>
  The empty query is neither routed to the native path nor delegated, although it contains
  neither a time variable nor \<open>group by\<close>.
\<close>

theorem route_empty_query:
  "\<not> containsGrafanaVariables [] \<and> \<not> containsGroupBy [] \<and>
   routeQuery [] \<lparr>From = GoTime 63000000000 0, To = GoTime 63000003600 0\<rparr> \<noteq> FireQL \<and>
   routeQuery [] \<lparr>From = GoTime 63000000000 0, To = GoTime 63000003600 0\<rparr> \<noteq> NativeSDK"
  by (simp add: containsGrafanaVariables_def containsGroupBy_def routeQuery_def
        strings_Contains_def strings_ToLower_def)

section \<open>Properties of the FireQL path\<close>

lemma NewField_name: "NewField name vs = Inr f \<Longrightarrow> fieldName f = name"
  by (cases vs) (auto simp: NewField_def)

lemma frameFields_names:
  "frameFields fv cols = Inr fs \<Longrightarrow> map fieldName fs = map (\<lambda>c. c @ ''_USING_FIREQL'') cols"
proof (induction cols arbitrary: fs)
  case Nil
  then show ?case by simp
next
  case (Cons c cols)
  from Cons.prems obtain f where
    f: "NewField (c @ ''_USING_FIREQL'') (lookupColumn fv c) = Inr f" and
    rest: "bind_err (frameFields fv cols) (\<lambda>fs. Inr (f # fs)) = Inr fs"
    using bind_err_Inr by (fastforce simp: )
  from rest obtain fs' where fs': "frameFields fv cols = Inr fs'" and eq: "fs = f # fs'"
    using bind_err_Inr by fastforce
  from f have "fieldName f = c @ ''_USING_FIREQL''" by (rule NewField_name)
  with Cons.IH [OF fs'] eq show ?case by simp
qed

text \<open>
  C10. On the FireQL path, a response that carries frames carries one frame, whose fields
  are named, in order, by the columns the library reports, each suffixed with
  \<open>_USING_FIREQL\<close>; no field has the name of its column without the suffix.
\<close>

theorem executeFireQL_names:
  assumes ex: "execute query = Inr (Some result)"
      and ok: "executeFireQL env execute query = Inr frames"
  shows "map (map fieldName) frames = [map (\<lambda>c. c @ ''_USING_FIREQL'') (Columns result)]
         \<and> list_all (\<lambda>frame. list_all2 (\<lambda>f c. fieldName f \<noteq> c) frame (Columns result)) frames"
proof -
  define records where "records =
    (if length (Records result) > 10000 then take 10000 (Records result) else Records result)"
  from ok ex have "bind_err (collectColumns env records (enumerate 0 (Columns result)) [])
      (\<lambda>fv. bind_err (frameFields fv (Columns result)) (\<lambda>frame. Inr [frame])) = Inr frames"
    by (simp add: executeFireQL_def records_def Let_def)
  then obtain fv where
    "bind_err (frameFields fv (Columns result)) (\<lambda>frame. Inr [frame]) = Inr frames"
    using bind_err_Inr by fastforce
  then obtain frame where
    fr: "frameFields fv (Columns result) = Inr frame" and fs: "frames = [frame]"
    using bind_err_Inr by fastforce
  from fr have names: "map fieldName frame = map (\<lambda>c. c @ ''_USING_FIREQL'') (Columns result)"
    by (rule frameFields_names)
  then have len: "length frame = length (Columns result)"
    using length_map by metis
  have "list_all2 (\<lambda>f c. fieldName f \<noteq> c) frame (Columns result)"
  proof (rule list_all2_all_nthI [OF len])
    fix n assume n: "n < length frame"
    from names have "map fieldName frame ! n = map (\<lambda>c. c @ ''_USING_FIREQL'') (Columns result) ! n"
      by simp
    with n len have "fieldName (frame ! n) = Columns result ! n @ ''_USING_FIREQL''"
      by simp
    then show "fieldName (frame ! n) \<noteq> Columns result ! n" by simp
  qed
  with fs names show ?thesis by simp
qed

theorem executeFireQL_names_witness:
  "executeFireQL intEnv
     (\<lambda>q. Inr (Some \<lparr>Columns = [''id'', ''name''],
                      Records = [[VInt64 1, VString ''x''], [VInt64 2, VNil]]\<rparr>))
     ''select id, name from t''
   = Inr [[\<lparr>fieldName = ''id_USING_FIREQL'', fieldValues = Int64s [1, 2]\<rparr>,
           \<lparr>fieldName = ''name_USING_FIREQL'', fieldValues = Strings [''x'']\<rparr>]] \<and>
   list_all2 (\<lambda>f c. fieldName f \<noteq> c)
     ([\<lparr>fieldName = ''id_USING_FIREQL'', fieldValues = Int64s [1, 2]\<rparr>,
       \<lparr>fieldName = ''name_USING_FIREQL'', fieldValues = Strings [''x'']\<rparr>] :: int frame)
     [''id'', ''name'']"
proof -
  let ?res = "\<lparr>Columns = [''id'', ''name''],
               Records = [[VInt64 1, VString ''x''], [VInt64 2, VNil :: int val]]\<rparr>"
  let ?exec = "\<lambda>q::string. (Inr (Some ?res) :: string + int QueryResult option)"
  let ?frame = "[\<lparr>fieldName = ''id_USING_FIREQL'', fieldValues = Int64s [1, 2]\<rparr>,
                 \<lparr>fieldName = ''name_USING_FIREQL'', fieldValues = Strings [''x'']\<rparr>] :: int frame"
  have ex: "?exec ''select id, name from t'' = Inr (Some ?res)" by simp
  have h: "executeFireQL intEnv ?exec ''select id, name from t'' = Inr [?frame]"
    by code_simp
  have c: "Columns ?res = [''id'', ''name'']" by simp
  note executeFireQL_names [OF ex h, THEN conjunct2]
  then have "list_all2 (\<lambda>f c. fieldName f \<noteq> c) ?frame (Columns ?res)"
    by (simp only: list.pred_inject simp_thms)
  then have "list_all2 (\<lambda>f c. fieldName f \<noteq> c) ?frame [''id'', ''name'']"
    by (simp only: c)
  with h show ?thesis by (rule conjI)
qed

section \<open>Properties of the parser\<close>






























text \<open>
  C2, amended. Parsing the query of the specification gives the plan below: the plain
  select item \<open>status\<close> is in \<open>Fields\<close>; the other components are as claimed.
\<close>

theorem parse_select_status_count:
  "parseSQLQueryWithVariables
     ''SELECT status, COUNT(*) as total FROM orders GROUP BY status ORDER BY total DESC''
   = (Inr \<lparr>Collection = ''orders'', Fields = [''status''], TimeField = [],
          AdditionalFilters = [], OrderField = ''total'', OrderDirection = ''DESC'',
          Limit = 0, GroupByFields = [''status''],
          AggregateFields = [\<lparr>Function = ''COUNT'', Field = ''*'', Alias = ''total''\<rparr>]\<rparr>
       :: error + int QueryInfo)"
  by code_simp

text \<open>The \<open>Fields\<close> of that plan are not empty.\<close>

theorem parse_select_status_count_Fields:
  "Fields (projr (parseSQLQueryWithVariables
     ''SELECT status, COUNT(*) as total FROM orders GROUP BY status ORDER BY total DESC''
       :: error + int QueryInfo))
   \<noteq> []"
  by code_simp

text \<open>
  The end of the collection name is the least of the length and the keyword indices that
  are present. The end of the WHERE clause is the index of LIMIT whenever LIMIT follows
  WHERE, whatever lies between them.
\<close>

lemma whereEndIdx_limit:
  "limitIdx ix \<noteq> -1 \<Longrightarrow> limitIdx ix > whereIdx ix \<Longrightarrow> whereEndIdx len ix = limitIdx ix"
  by (simp add: whereEndIdx_def Let_def)

lemma collectionEndIdx_le:
  "(whereIdx ix \<noteq> -1 \<longrightarrow> collectionEndIdx len ix \<le> whereIdx ix) \<and>
   (groupIdx ix \<noteq> -1 \<longrightarrow> collectionEndIdx len ix \<le> groupIdx ix) \<and>
   (orderIdx ix \<noteq> -1 \<longrightarrow> collectionEndIdx len ix \<le> orderIdx ix) \<and>
   (limitIdx ix \<noteq> -1 \<longrightarrow> collectionEndIdx len ix \<le> limitIdx ix) \<and>
   collectionEndIdx len ix \<in> {len, whereIdx ix, groupIdx ix, orderIdx ix, limitIdx ix}"
  by (simp add: collectionEndIdx_def Let_def)

text \<open>
  C3. The end of the WHERE clause is not the nearest following keyword: with GROUP BY at
  27, ORDER BY at 38 and LIMIT at 49, all after WHERE at 15, \<open>whereEndIdx\<close> is 49, and the
  text of the GROUP BY and ORDER BY clauses ends up in the value of the filter.
\<close>

theorem where_clause_runs_to_limit:
  "clauseIndices (strings_ToLower ''SELECT a FROM c WHERE x = 1 GROUP BY s ORDER BY t LIMIT 5'')
     = \<lparr>whereIdx = 15, groupIdx = 27, orderIdx = 38, limitIdx = 49\<rparr> \<and>
   whereEndIdx (int (length ''SELECT a FROM c WHERE x = 1 GROUP BY s ORDER BY t LIMIT 5''))
     \<lparr>whereIdx = 15, groupIdx = 27, orderIdx = 38, limitIdx = 49\<rparr> = 49 \<and>
   parseSQLQueryWithVariables ''SELECT a FROM c WHERE x = 1 GROUP BY s ORDER BY t LIMIT 5''
     = (Inr \<lparr>Collection = ''c'', Fields = [''a''], TimeField = [],
            AdditionalFilters =
              [\<lparr>FilterField = ''x'', Operator = ''=='',
                Value = VString ''1 GROUP BY s ORDER BY t''\<rparr>],
            OrderField = ''t'', OrderDirection = ''ASC'', Limit = 5,
            GroupByFields = [''s''], AggregateFields = []\<rparr> :: error + int QueryInfo)"
  by code_simp

section \<open>Properties of the native path\<close>

text \<open>
  The ordering is withheld from the store for a plan that groups or aggregates; the limit
  is sent to the store for every plan.
\<close>

lemma buildFirestoreQuery_order:
  "GroupByFields queryInfo \<noteq> [] \<or> AggregateFields queryInfo \<noteq> [] \<Longrightarrow>
   fqOrderBy (buildFirestoreQuery queryInfo timeRange) = []"
  by (auto simp: buildFirestoreQuery_def Let_def)

lemma buildFirestoreQuery_limit:
  "Limit queryInfo > 0 \<Longrightarrow>
   fqLimit (buildFirestoreQuery queryInfo timeRange) = Some (Limit queryInfo)"
  by (simp add: buildFirestoreQuery_def Let_def)

text \<open>In the aggregation, the limit is applied last, to the sorted results.\<close>

lemma aggregatedResults_limit:
  "aggregatedResults env docs queryInfo =
     applyLimit (Limit queryInfo)
       (if OrderField queryInfo \<noteq> []
        then exchangeSort (shouldSwap env queryInfo)
               (map (retrySortValue env queryInfo)
                  (map (\<lambda>g. aggregateGroup env queryInfo (snd g))
                     (groupDocuments env (GroupByFields queryInfo)
                        (applyManualFiltering env docs (AdditionalFilters queryInfo)))))
        else map (\<lambda>g. aggregateGroup env queryInfo (snd g))
               (groupDocuments env (GroupByFields queryInfo)
                  (applyManualFiltering env docs (AdditionalFilters queryInfo))))"
  by (simp add: aggregatedResults_def Let_def)

lemma length_addToGroup: "length (addToGroup k d gs) \<le> Suc (length gs)"
  by (induction gs) auto

lemma length_foldl_addToGroup:
  "length (foldl (\<lambda>groups doc. addToGroup (key doc) (dat doc) groups) gs docs)
     \<le> length gs + length docs"
proof (induction docs arbitrary: gs)
  case Nil
  then show ?case by simp
next
  case (Cons doc docs)
  from Cons.IH [of "addToGroup (key doc) (dat doc) gs"] length_addToGroup [of "key doc" "dat doc" gs]
  show ?case by simp
qed

lemma length_groupDocuments: "length (groupDocuments env gbf docs) \<le> length docs"
  using length_foldl_addToGroup [of "\<lambda>doc. groupKey env gbf (docDataOf doc)" docDataOf "[]" docs]
  by (simp add: groupDocuments_def)

lemma length_applyManualFiltering: "length (applyManualFiltering env docs filters) \<le> length docs"
  by (simp add: applyManualFiltering_def filterLoop_filter)

lemma length_exchangeSort: "length (exchangeSort sw xs) = length xs"
  by (induction sw xs rule: exchangeSort.induct) (simp_all add: length_sweep)

text \<open>
  When the store has applied the limit, the documents are no more than the limit, and so
  are the groups: the limit on the results then changes nothing.
\<close>

lemma applyLimit_unreachable:
  assumes "int (length docs) \<le> Limit queryInfo"
  shows "aggregatedResults env docs queryInfo =
     (if OrderField queryInfo \<noteq> []
        then exchangeSort (shouldSwap env queryInfo)
               (map (retrySortValue env queryInfo)
                  (map (\<lambda>g. aggregateGroup env queryInfo (snd g))
                     (groupDocuments env (GroupByFields queryInfo)
                        (applyManualFiltering env docs (AdditionalFilters queryInfo)))))
        else map (\<lambda>g. aggregateGroup env queryInfo (snd g))
               (groupDocuments env (GroupByFields queryInfo)
                  (applyManualFiltering env docs (AdditionalFilters queryInfo))))"
proof -
  let ?gs = "groupDocuments env (GroupByFields queryInfo)
               (applyManualFiltering env docs (AdditionalFilters queryInfo))"
  have "length ?gs \<le> length docs"
    using length_groupDocuments [of env "GroupByFields queryInfo"
            "applyManualFiltering env docs (AdditionalFilters queryInfo)"]
          length_applyManualFiltering [of env docs "AdditionalFilters queryInfo"]
    by simp
  with assms have "\<not> Limit queryInfo < int (length ?gs)" by simp
  then show ?thesis
    by (simp add: aggregatedResults_def Let_def applyLimit_def length_exchangeSort)
qed

text \<open>
  C1. For the aggregating plan of a query with \<open>LIMIT 1\<close>, the query sent to the store
  carries the limit 1, so a store that honours it returns one raw document: the response
  is the group of that document with the count 1, where limiting after the aggregation of
  the three documents gives the group \<open>open\<close> with the count 2.
\<close>

theorem limit_applied_to_raw_documents:
  "parseSQLQueryWithVariables
     ''SELECT status, COUNT(*) as total FROM orders GROUP BY status ORDER BY total DESC LIMIT 1''
   = (Inr \<lparr>Collection = ''orders'', Fields = [''status''], TimeField = [],
          AdditionalFilters = [], OrderField = ''total'', OrderDirection = ''DESC'',
          Limit = 1, GroupByFields = [''status''],
          AggregateFields = [\<lparr>Function = ''COUNT'', Field = ''*'', Alias = ''total''\<rparr>]\<rparr>
       :: error + int QueryInfo) \<and>
   fqLimit (buildFirestoreQuery
      (\<lparr>Collection = ''orders'', Fields = [''status''], TimeField = [],
          AdditionalFilters = [], OrderField = ''total'', OrderDirection = ''DESC'',
          Limit = 1, GroupByFields = [''status''],
          AggregateFields = [\<lparr>Function = ''COUNT'', Field = ''*'', Alias = ''total''\<rparr>]\<rparr>
         :: int QueryInfo)
      \<lparr>From = GoTime 0 0, To = GoTime 0 0\<rparr>) = Some 1 \<and>
   executeWithNativeSDKForVariables intEnv
     (Inr (limitingStore
        [Some [(''status'', VString ''closed'')],
         Some [(''status'', VString ''open'')],
         Some [(''status'', VString ''open'')]]))
     (\<lambda>docs queryInfo. Inr [])
     ''SELECT status, COUNT(*) as total FROM orders GROUP BY status ORDER BY total DESC LIMIT 1''
     \<lparr>From = GoTime 0 0, To = GoTime 0 0\<rparr>
   = Inr [[\<lparr>fieldName = ''status'', fieldValues = Strings [''closed'']\<rparr>,
           \<lparr>fieldName = ''total'', fieldValues = Float64s [1]\<rparr>]] \<and>
   processGroupByQueryWithOrdering intEnv
        [Some [(''status'', VString ''closed'')],
         Some [(''status'', VString ''open'')],
         Some [(''status'', VString ''open'')]]
      \<lparr>Collection = ''orders'', Fields = [''status''], TimeField = [],
          AdditionalFilters = [], OrderField = ''total'', OrderDirection = ''DESC'',
          Limit = 1, GroupByFields = [''status''],
          AggregateFields = [\<lparr>Function = ''COUNT'', Field = ''*'', Alias = ''total''\<rparr>]\<rparr>
   = [\<lparr>fieldName = ''status'', fieldValues = Strings [''open'']\<rparr>,
      \<lparr>fieldName = ''total'', fieldValues = Float64s [2]\<rparr>]"
  by code_simp

section \<open>Properties of the grouping\<close>

lemma members_Nil: "members [] = {}"
  by (simp add: members_def)

lemma members_Cons: "members ((k, ds) # gs) = (\<lambda>d. (k, d)) ` set ds \<union> members gs"
  by (auto simp: members_def)

lemma members_addToGroup: "members (addToGroup k d gs) = insert (k, d) (members gs)"
proof (induction gs)
  case Nil
  then show ?case by (simp add: members_Cons members_Nil)
next
  case (Cons g gs)
  obtain k' ds where g: "g = (k', ds)" by (cases g)
  show ?case
  proof (cases "k = k'")
    case True
    then show ?thesis using g by (auto simp: members_Cons)
  next
    case False
    then show ?thesis using g Cons.IH by (auto simp: members_Cons)
  qed
qed

lemma keys_addToGroup: "fst ` set (addToGroup k d gs) = insert k (fst ` set gs)"
proof (induction gs)
  case Nil
  then show ?case by simp
next
  case (Cons g gs)
  obtain k' ds where g: "g = (k', ds)" by (cases g)
  show ?case
  proof (cases "k = k'")
    case True
    then show ?thesis using g by auto
  next
    case False
    then show ?thesis using g Cons.IH by auto
  qed
qed

lemma distinct_addToGroup:
  "distinct (map fst gs) \<Longrightarrow> distinct (map fst (addToGroup k d gs))"
proof (induction gs)
  case Nil
  then show ?case by simp
next
  case (Cons g gs)
  obtain k' ds where g: "g = (k', ds)" by (cases g)
  from Cons g have nk: "k' \<notin> fst ` set gs" and IH: "distinct (map fst (addToGroup k d gs))"
    and dg: "distinct (map fst gs)"
    by simp_all
  show ?case
  proof (cases "k = k'")
    case True
    then show ?thesis using g nk dg by simp
  next
    case False
    then show ?thesis using g nk IH keys_addToGroup [of k d gs] by simp
  qed
qed

lemma foldl_addToGroup:
  "members (foldl (\<lambda>groups doc. addToGroup (key doc) (dat doc) groups) gs docs)
     = members gs \<union> (\<lambda>doc. (key doc, dat doc)) ` set docs
   \<and> (distinct (map fst gs) \<longrightarrow>
        distinct (map fst (foldl (\<lambda>groups doc. addToGroup (key doc) (dat doc) groups) gs docs)))"
proof (induction docs arbitrary: gs)
  case Nil
  then show ?case by simp
next
  case (Cons doc docs)
  show ?case
    using Cons.IH [of "addToGroup (key doc) (dat doc) gs"]
    by (auto simp: members_addToGroup distinct_addToGroup)
qed

lemma members_groupDocuments:
  "members (groupDocuments env gbf docs)
     = (\<lambda>doc. (groupKey env gbf (docDataOf doc), docDataOf doc)) ` set docs"
  using foldl_addToGroup [of "\<lambda>doc. groupKey env gbf (docDataOf doc)" docDataOf "[]" docs]
  by (simp add: groupDocuments_def members_Nil)

lemma distinct_groupDocuments: "distinct (map fst (groupDocuments env gbf docs))"
  using foldl_addToGroup [of "\<lambda>doc. groupKey env gbf (docDataOf doc)" docDataOf "[]" docs]
  by (simp add: groupDocuments_def)

lemma sameGroup_iff_key:
  assumes d1: "d1 \<in> set (map docDataOf docs)" and d2: "d2 \<in> set (map docDataOf docs)"
  shows "sameGroup (groupDocuments env gbf docs) d1 d2
           = (groupKey env gbf d1 = groupKey env gbf d2)"
proof
  let ?gs = "groupDocuments env gbf docs"
  assume "sameGroup ?gs d1 d2"
  then obtain k ds where "(k, ds) \<in> set ?gs" "d1 \<in> set ds" "d2 \<in> set ds"
    by (auto simp: sameGroup_def list_ex_iff)
  then have "(k, d1) \<in> members ?gs" "(k, d2) \<in> members ?gs"
    by (auto simp: members_def)
  then show "groupKey env gbf d1 = groupKey env gbf d2"
    by (auto simp: members_groupDocuments)
next
  let ?gs = "groupDocuments env gbf docs"
  assume eq: "groupKey env gbf d1 = groupKey env gbf d2"
  from d1 have "(groupKey env gbf d1, d1) \<in> members ?gs"
    by (auto simp: members_groupDocuments)
  then obtain ds1 where m1: "(groupKey env gbf d1, ds1) \<in> set ?gs" "d1 \<in> set ds1"
    by (auto simp: members_def)
  from d2 have "(groupKey env gbf d2, d2) \<in> members ?gs"
    by (auto simp: members_groupDocuments)
  then obtain ds2 where m2: "(groupKey env gbf d2, ds2) \<in> set ?gs" "d2 \<in> set ds2"
    by (auto simp: members_def)
  from m1(1) m2(1) eq distinct_groupDocuments [of env gbf docs] have "ds1 = ds2"
    by (metis eq_key_imp_eq_value)
  with m1 m2 have "(groupKey env gbf d1, ds1) \<in> set ?gs \<and>
      d1 \<in> set (snd (groupKey env gbf d1, ds1)) \<and> d2 \<in> set (snd (groupKey env gbf d1, ds1))"
    by simp
  then show "sameGroup ?gs d1 d2"
    unfolding sameGroup_def list_ex_iff
    by (intro bexI [of _ "(groupKey env gbf d1, ds1)"]) simp_all
qed

lemma append_sep_inject:
  "c \<notin> set x \<Longrightarrow> c \<notin> set y \<Longrightarrow> x @ c # r = y @ c # r' \<Longrightarrow> x = y \<and> r = r'"
proof (induction x arbitrary: y)
  case Nil
  then show ?case by (cases y) auto
next
  case (Cons a x)
  then show ?case by (cases y) auto
qed

lemma strings_Join_Cons:
  "strings_Join (x # xs) sep = (if xs = [] then x else x @ sep @ strings_Join xs sep)"
  by (cases xs) simp_all

lemma strings_Join_inject:
  assumes "length xs = length ys"
      and "list_all (\<lambda>s. c \<notin> set s) xs" and "list_all (\<lambda>s. c \<notin> set s) ys"
      and "strings_Join xs [c] = strings_Join ys [c]"
  shows "xs = ys"
  using assms
proof (induction xs ys rule: list_induct2)
  case Nil
  then show ?case by simp
next
  case (Cons x xs y ys)
  show ?case
  proof (cases "xs = []")
    case True
    with Cons show ?thesis by (simp add: strings_Join_Cons)
  next
    case False
    with Cons.hyps have ne: "ys \<noteq> []" by auto
    from Cons.prems False ne
    have "x @ c # strings_Join xs [c] = y @ c # strings_Join ys [c]"
      by (simp add: strings_Join_Cons)
    with Cons.prems have "x = y \<and> strings_Join xs [c] = strings_Join ys [c]"
      using append_sep_inject [of c x y] by simp
    with Cons show ?thesis by simp
  qed
qed

lemma groupKey_groupStrings: "groupKey env gbf d = strings_Join (groupStrings env gbf d) ''|''"
  by (simp add: groupKey_def groupStrings_def)

text \<open>
  C6, amended. Two documents among those grouped are in the same group exactly when
  their pipe-joined keys are equal. Equal renderings of every group field give the same
  group; and when no rendering of a group field of either document contains the pipe
  character, the two documents are in the same group exactly when the renderings of
  every group field are equal.
\<close>

theorem grouping_by_key:
  assumes d1: "d1 \<in> set (map docDataOf docs)" and d2: "d2 \<in> set (map docDataOf docs)"
  shows "(sameGroup (groupDocuments env gbf docs) d1 d2
            = (groupKey env gbf d1 = groupKey env gbf d2))
         \<and> (groupStrings env gbf d1 = groupStrings env gbf d2
              \<longrightarrow> sameGroup (groupDocuments env gbf docs) d1 d2)
         \<and> (list_all (\<lambda>s. CHR ''|'' \<notin> set s) (groupStrings env gbf d1) \<and>
            list_all (\<lambda>s. CHR ''|'' \<notin> set s) (groupStrings env gbf d2)
              \<longrightarrow> sameGroup (groupDocuments env gbf docs) d1 d2
                    = (groupStrings env gbf d1 = groupStrings env gbf d2))"
proof -
  note k = sameGroup_iff_key [OF d1 d2, of env gbf]
  have len: "length (groupStrings env gbf d1) = length (groupStrings env gbf d2)"
    by (simp add: groupStrings_def)
  have a: "groupStrings env gbf d1 = groupStrings env gbf d2
             \<Longrightarrow> groupKey env gbf d1 = groupKey env gbf d2"
    by (simp add: groupKey_groupStrings)
  have b: "groupStrings env gbf d1 = groupStrings env gbf d2"
    if "list_all (\<lambda>s. CHR ''|'' \<notin> set s) (groupStrings env gbf d1)"
       "list_all (\<lambda>s. CHR ''|'' \<notin> set s) (groupStrings env gbf d2)"
       "groupKey env gbf d1 = groupKey env gbf d2"
    using strings_Join_inject [OF len that(1) that(2)] that(3)
    by (simp add: groupKey_groupStrings)
  from k a b show ?thesis by blast
qed

theorem grouping_by_key_witness:
  "[(''status'', VString ''open''), (''amt'', VInt 10)]
     \<in> set (map docDataOf
          [Some [(''status'', VString ''open''), (''amt'', VInt 10)],
           Some [(''status'', VString ''closed''), (''amt'', VInt 5)],
           Some [(''status'', VString ''open''), (''amt'', VInt 30 :: int val)]]) \<and>
   [(''status'', VString ''open''), (''amt'', VInt 30)]
     \<in> set (map docDataOf
          [Some [(''status'', VString ''open''), (''amt'', VInt 10)],
           Some [(''status'', VString ''closed''), (''amt'', VInt 5)],
           Some [(''status'', VString ''open''), (''amt'', VInt 30 :: int val)]]) \<and>
   list_all (\<lambda>s. CHR ''|'' \<notin> set s)
     (groupStrings intEnv [''status''] [(''status'', VString ''open''), (''amt'', VInt 10)]) \<and>
   list_all (\<lambda>s. CHR ''|'' \<notin> set s)
     (groupStrings intEnv [''status''] [(''status'', VString ''open''), (''amt'', VInt 30)]) \<and>
   groupStrings intEnv [''status''] [(''status'', VString ''open''), (''amt'', VInt 10)]
     = groupStrings intEnv [''status''] [(''status'', VString ''open''), (''amt'', VInt 30)] \<and>
   sameGroup
     (groupDocuments intEnv [''status'']
        [Some [(''status'', VString ''open''), (''amt'', VInt 10)],
         Some [(''status'', VString ''closed''), (''amt'', VInt 5)],
         Some [(''status'', VString ''open''), (''amt'', VInt 30)]])
     [(''status'', VString ''open''), (''amt'', VInt 10)]
     [(''status'', VString ''open''), (''amt'', VInt 30)]"
proof -
  let ?d1 = "[(''status'', VString ''open''), (''amt'', VInt 10 :: int val)]"
  let ?d2 = "[(''status'', VString ''open''), (''amt'', VInt 30 :: int val)]"
  let ?docs = "[Some ?d1, Some [(''status'', VString ''closed''), (''amt'', VInt 5)], Some ?d2]"
  have m1: "?d1 \<in> set (map docDataOf ?docs)" by (simp add: docDataOf_def)
  have m2: "?d2 \<in> set (map docDataOf ?docs)" by (simp add: docDataOf_def)
  have p1: "list_all (\<lambda>s. CHR ''|'' \<notin> set s) (groupStrings intEnv [''status''] ?d1)"
    by code_simp
  have p2: "list_all (\<lambda>s. CHR ''|'' \<notin> set s) (groupStrings intEnv [''status''] ?d2)"
    by code_simp
  have e: "groupStrings intEnv [''status''] ?d1 = groupStrings intEnv [''status''] ?d2"
    by code_simp
  from grouping_by_key [OF m1 m2, of intEnv "[''status'']", THEN conjunct2, THEN conjunct2,
       rule_format, OF conjI [OF p1 p2]] e
  have "sameGroup (groupDocuments intEnv [''status''] ?docs) ?d1 ?d2" by (simp only:)
  with m1 m2 p1 p2 e show ?thesis by (intro conjI)
qed

text \<open>
  With a pipe character in the values, two documents whose renderings differ in both
  group fields have the same key and are in one group.
\<close>

theorem grouping_conflates_pipe_values:
  "groupDocuments intEnv [''a'', ''b'']
     [Some [(''a'', VString ''x|y''), (''b'', VString ''z'')],
      Some [(''a'', VString ''x''), (''b'', VString ''y|z'')]]
   = [(''x|y|z'', [[(''a'', VString ''x|y''), (''b'', VString ''z'')],
                   [(''a'', VString ''x''), (''b'', VString ''y|z'')]])] \<and>
   sameGroup
     (groupDocuments intEnv [''a'', ''b'']
        [Some [(''a'', VString ''x|y''), (''b'', VString ''z'')],
         Some [(''a'', VString ''x''), (''b'', VString ''y|z'')]])
     [(''a'', VString ''x|y''), (''b'', VString ''z'')]
     [(''a'', VString ''x''), (''b'', VString ''y|z'')] \<and>
   groupStrings intEnv [''a'', ''b''] [(''a'', VString ''x|y''), (''b'', VString ''z'')]
     = [''x|y'', ''z''] \<and>
   groupStrings intEnv [''a'', ''b''] [(''a'', VString ''x''), (''b'', VString ''y|z'')]
     = [''x'', ''y|z'']"
  by code_simp

end
